theory Spec2Isabelle
  imports
    Complex_Main
    "HOL-Library.Word"
    "HOL-Library.List_Lexorder"
    "HOL-Library.Product_Lexorder"
    "HOL-Library.Multiset"
begin

section \<open>JavaScript values\<close>

text \<open>
  A JavaScript string is a sequence of 16-bit code units; \<open>length\<close>, \<open>substring\<close>
  and a regular expression without the \<open>u\<close> flag all work on code units. A character
  outside the Basic Multilingual Plane (an emoji) is two code units, both in
  \<open>0xD800..0xDFFF\<close>. \<open>lit\<close> embeds an ASCII literal of the source.

  A \<open>number\<close> that carries a latency, a threshold or a count is a real number here:
  the comparisons, \<open>Math.max\<close> and \<open>Math.round\<close> of the source are exact on finite
  doubles. \<open>NaN\<close> and the infinities appear only where the source tests for them
  (\<open>validateLatency\<close>). A timestamp (\<open>Date.now()\<close>) is an integer number of
  milliseconds, and every function that reads the clock takes the reading as an argument.
\<close>

type_synonym code_unit = "16 word"
type_synonym jsstring = "code_unit list"

definition lit :: "string \<Rightarrow> jsstring" where
  "lit s = map (\<lambda>c. of_nat (of_char c)) s"

text \<open>
  A template literal such as \<^verbatim>\<open>`simulated ${simulatedLatencyMs}ms`\<close> is kept as its parts:
  the literal text and the interpolated numbers, in order. A plain string literal is the
  template with one text part.
\<close>

datatype piece = Text jsstring | Num real

type_synonym template = "piece list"

definition Math_round :: "real \<Rightarrow> real" where
  "Math_round x = of_int \<lfloor>x + 1 / 2\<rfloor>"

text \<open>
  A value of type \<open>unknown\<close>. \<open>Other\<close> stands for every value that is neither
  \<open>undefined\<close>, \<open>null\<close>, a boolean, a number nor a string (an object, a function,
  a symbol, a bigint): the source only asks whether a value is a number or a string.
\<close>

datatype jsnum = Finite real | PosInfinity | NegInfinity | NaN

datatype jsval = Undefined | Null | Boolean bool | Number jsnum | String jsstring | Other

text \<open>\<open>Math.max(x, ...ys)\<close> on at least one argument.\<close>

fun Math_max :: "real \<Rightarrow> real list \<Rightarrow> real" where
  "Math_max x [] = x"
| "Math_max x (y # ys) = Math_max (max x y) ys"

section \<open>Text in the database\<close>

text \<open>
  SQLite holds text in UTF-8 and its default collation compares the bytes. \<open>utf8\<close> is
  the encoding of a string: a surrogate pair is one code point, and a surrogate without
  its partner is encoded as \<open>U+FFFD\<close>.
\<close>

definition is_surrogate :: "code_unit \<Rightarrow> bool" where
  "is_surrogate c \<longleftrightarrow> 0xD800 \<le> c \<and> c \<le> 0xDFFF"

fun code_points :: "jsstring \<Rightarrow> nat list" where
  "code_points (c # d # rest) =
     (if 0xD800 \<le> c \<and> c \<le> 0xDBFF \<and> 0xDC00 \<le> d \<and> d \<le> 0xDFFF
      then (0x10000 + (unat c - 0xD800) * 0x400 + (unat d - 0xDC00)) # code_points rest
      else (if is_surrogate c then 0xFFFD else unat c) # code_points (d # rest))"
| "code_points [c] = [if is_surrogate c then 0xFFFD else unat c]"
| "code_points [] = []"

definition utf8_of_code_point :: "nat \<Rightarrow> 8 word list" where
  "utf8_of_code_point n =
     (if n < 0x80 then [of_nat n]
      else if n < 0x800 then [of_nat (0xC0 + n div 0x40), of_nat (0x80 + n mod 0x40)]
      else if n < 0x10000 then
        [of_nat (0xE0 + n div 0x1000), of_nat (0x80 + n div 0x40 mod 0x40),
         of_nat (0x80 + n mod 0x40)]
      else
        [of_nat (0xF0 + n div 0x40000), of_nat (0x80 + n div 0x1000 mod 0x40),
         of_nat (0x80 + n div 0x40 mod 0x40), of_nat (0x80 + n mod 0x40)])"

definition utf8 :: "jsstring \<Rightarrow> 8 word list" where
  "utf8 s = concat (map utf8_of_code_point (code_points s))"

section \<open>core: types\<close>

text \<open>The union type \<^verbatim>\<open>'P0' | 'P1' | 'P2'\<close>.\<close>

datatype priority = P0 | P1 | P2

text \<open>
  The older thought buffer (\<open>src/index.ts\<close>) has its own interface \<open>BufferedThought\<close>,
  here \<open>tb_BufferedThought\<close>, with the priorities \<^verbatim>\<open>'low' | 'normal' | 'high'\<close>, and
  no column \<open>status\<close>: a row is pending while \<open>synthesized_at\<close> is \<open>NULL\<close> and
  \<open>discarded\<close> is 0. The field \<open>id\<close> is \<open>thought_id\<close> here.
\<close>

datatype tb_priority = Low | Normal | High

record tb_BufferedThought =
  thought_id :: int
  agent_id :: jsstring
  channel :: jsstring
  target :: jsstring
  content :: jsstring
  priority :: tb_priority
  created_at :: jsstring
  synthesized_at :: "jsstring option"
  discarded :: int
  metadata :: "jsstring option"

text \<open>
  A row of the table \<open>synthesis_events\<close> of the plugin (without the row id); a column
  that may hold \<open>NULL\<close> is an option.
\<close>

record SynthesisEvent =
  agent_id :: jsstring
  thoughts_count :: int
  final_output :: "jsstring option"
  triggered_at :: jsstring

text \<open>
  \<open>BufferedThought\<close>, the same interface in the core and in the plugin, and a row of
  the table \<open>buffered_thoughts\<close>. The field \<open>id\<close> is \<open>thought_id\<close> here.
\<close>

record BufferedThought =
  thought_id :: int
  agent_id :: jsstring
  channel :: jsstring
  target :: jsstring
  content :: jsstring
  priority :: priority
  created_at :: jsstring
  status :: jsstring

record BufferStatus =
  buffering :: bool
  reason :: template
  latencyMs :: real

record LatencySample =
  ts :: int
  latencyMs :: real

record SystemState =
  globalForcedBuffering :: bool
  simulatedLatencyMs :: real
  systemHalted :: bool

section \<open>core: LatencyTracker\<close>

record LatencyTracker =
  samples :: "LatencySample list"
  maxSamples :: int

text \<open>
  The constructor \<^verbatim>\<open>constructor(maxSamples = 100)\<close>: the argument may be left out
  (\<open>None\<close>), and the default is 100.
\<close>

definition new_LatencyTracker :: "int option \<Rightarrow> LatencyTracker" where
  "new_LatencyTracker n =
     \<lparr>samples = [], maxSamples = (case n of None \<Rightarrow> 100 | Some m \<Rightarrow> m)\<rparr>"

text \<open>
  \<open>record(latencyMs)\<close>: \<open>push\<close> appends at the end, \<open>shift\<close> removes the first
  element. \<open>now\<close> is the value of \<open>Date.now()\<close>.
\<close>

definition tracker_record :: "LatencyTracker \<Rightarrow> int \<Rightarrow> real \<Rightarrow> LatencyTracker" where
  "tracker_record t now x =
     (let clamped = max 0 x;
          pushed = samples t @ [\<lparr>ts = now, latencyMs = clamped\<rparr>]
      in t\<lparr>samples := (if int (length pushed) > maxSamples t then tl pushed else pushed)\<rparr>)"

definition recent :: "LatencyTracker \<Rightarrow> int \<Rightarrow> int \<Rightarrow> LatencySample list" where
  "recent t now windowMs = filter (\<lambda>s. now - ts s < windowMs) (samples t)"

definition getAverage :: "LatencyTracker \<Rightarrow> int \<Rightarrow> int \<Rightarrow> real \<Rightarrow> real" where
  "getAverage t now windowMs fallback =
     (let r = recent t now windowMs
      in if length r = 0 then fallback
         else foldl (\<lambda>sum s. sum + latencyMs s) 0 r / real (length r))"

definition getMax :: "LatencyTracker \<Rightarrow> int \<Rightarrow> int \<Rightarrow> real \<Rightarrow> real" where
  "getMax t now windowMs fallback =
     (case map latencyMs (recent t now windowMs) of
        [] \<Rightarrow> fallback
      | x # xs \<Rightarrow> Math_max x xs)"

definition getSampleCount :: "LatencyTracker \<Rightarrow> nat" where
  "getSampleCount t = length (samples t)"

definition clear :: "LatencyTracker \<Rightarrow> LatencyTracker" where
  "clear t = t\<lparr>samples := []\<rparr>"

text \<open>
  A sequence of \<open>record\<close> calls, each a pair of the clock reading at the call and the
  argument; \<open>sample_of_call\<close> is the sample that a call stores.
\<close>

definition sample_of_call :: "int \<times> real \<Rightarrow> LatencySample" where
  "sample_of_call c = \<lparr>ts = fst c, latencyMs = max 0 (snd c)\<rparr>"

definition record_all :: "LatencyTracker \<Rightarrow> (int \<times> real) list \<Rightarrow> LatencyTracker" where
  "record_all t calls = foldl (\<lambda>t' (now, x). tracker_record t' now x) t calls"

section \<open>core: shouldBuffer\<close>

text \<open>
  \<open>getMax\<close> and \<open>getAverage\<close> each read the clock: \<open>now\<close> is the first reading of a
  call of \<open>shouldBuffer\<close> and \<open>later\<close> the second, which only the last branch makes.
\<close>

definition shouldBuffer ::
  "LatencyTracker \<Rightarrow> real \<Rightarrow> SystemState \<Rightarrow> int \<Rightarrow> int \<Rightarrow> BufferStatus" where
  "shouldBuffer tracker threshold state now later =
     (if systemHalted state then
        \<lparr>buffering = True, reason = [Text (lit ''SYSTEM HALTED'')], latencyMs = 0\<rparr>
      else if globalForcedBuffering state then
        \<lparr>buffering = True, reason = [Text (lit ''manual override'')],
         latencyMs = getAverage tracker now 60000 (simulatedLatencyMs state)\<rparr>
      else if simulatedLatencyMs state > threshold then
        \<lparr>buffering = True,
         reason = [Text (lit ''simulated ''), Num (simulatedLatencyMs state), Text (lit ''ms'')],
         latencyMs = simulatedLatencyMs state\<rparr>
      else
        (let maxLatency = getMax tracker now 60000 (simulatedLatencyMs state)
         in if maxLatency > threshold then
              \<lparr>buffering = True,
               reason = [Text (lit ''latency ''), Num (Math_round maxLatency),
                         Text (lit ''ms > ''), Num threshold, Text (lit ''ms'')],
               latencyMs = maxLatency\<rparr>
            else
              \<lparr>buffering = False, reason = [Text (lit ''healthy'')],
               latencyMs = getAverage tracker later 60000 (simulatedLatencyMs state)\<rparr>))"

section \<open>core: validation\<close>

definition validatePriority :: "jsval \<Rightarrow> priority" where
  "validatePriority p =
     (if p = String (lit ''P0'') then P0
      else if p = String (lit ''P1'') then P1
      else if p = String (lit ''P2'') then P2
      else P1)"

text \<open>
  \<open>String.prototype.trim\<close> removes the code units of \<open>WhiteSpace\<close> and
  \<open>LineTerminator\<close> from both ends.
\<close>

definition is_whitespace :: "code_unit \<Rightarrow> bool" where
  "is_whitespace c \<longleftrightarrow>
     c \<in> {0x09, 0x0A, 0x0B, 0x0C, 0x0D, 0x20, 0xA0, 0x1680, 0x2000, 0x2001, 0x2002, 0x2003,
          0x2004, 0x2005, 0x2006, 0x2007, 0x2008, 0x2009, 0x200A, 0x2028, 0x2029, 0x202F,
          0x205F, 0x3000, 0xFEFF}"

definition trim :: "jsstring \<Rightarrow> jsstring" where
  "trim s = rev (dropWhile is_whitespace (rev (dropWhile is_whitespace s)))"

definition validateThought :: "jsval \<Rightarrow> jsstring option" where
  "validateThought thought =
     (case thought of
        String s \<Rightarrow>
          if length (trim s) = 0 then None
          else if length s > 50000 then Some (take 50000 s)
          else Some s
      | _ \<Rightarrow> None)"

definition validateLatency :: "jsval \<Rightarrow> real" where
  "validateLatency ms =
     (case ms of
        Number n \<Rightarrow> (case n of Finite x \<Rightarrow> max 0 (Math_round x) | _ \<Rightarrow> 0)
      | _ \<Rightarrow> 0)"

section \<open>core: escapeContent\<close>

definition backslash :: code_unit where "backslash = 0x5C"
definition dquote :: code_unit where "dquote = 0x22"
definition newline :: code_unit where "newline = 0x0A"
definition letter_n :: code_unit where "letter_n = 0x6E"

text \<open>
  \<^verbatim>\<open>s.replace(/c/g, r)\<close> for a pattern that matches the one code unit \<open>c\<close> and a
  replacement \<open>r\<close> without \<^verbatim>\<open>$\<close>: every occurrence, left to right.
\<close>

definition replace_all :: "code_unit \<Rightarrow> jsstring \<Rightarrow> jsstring \<Rightarrow> jsstring" where
  "replace_all c r s = concat (map (\<lambda>x. if x = c then r else [x]) s)"

definition escapeContent :: "jsstring \<Rightarrow> jsstring" where
  "escapeContent s =
     replace_all newline [backslash, letter_n]
       (replace_all dquote [backslash, dquote]
          (replace_all backslash [backslash, backslash] s))"

text \<open>
  What escaping exactly once means, one code unit at a time, and the inverse that the
  specification calls unescaping: a backslash followed by a backslash, a double quote or
  the letter n stands for a backslash, a double quote or a newline.
\<close>

definition escape_unit_spec :: "code_unit \<Rightarrow> jsstring" where
  "escape_unit_spec c =
     (if c = backslash then [backslash, backslash]
      else if c = dquote then [backslash, dquote]
      else if c = newline then [backslash, letter_n]
      else [c])"

fun unescape_spec :: "jsstring \<Rightarrow> jsstring" where
  "unescape_spec (c # d # rest) =
     (if c = backslash \<and> d = backslash then backslash # unescape_spec rest
      else if c = backslash \<and> d = dquote then dquote # unescape_spec rest
      else if c = backslash \<and> d = letter_n then newline # unescape_spec rest
      else c # unescape_spec (d # rest))"
| "unescape_spec [c] = [c]"
| "unescape_spec [] = []"

section \<open>core: generateSynthesisPrompt\<close>

text \<open>The decimal digits of a count, as a template literal prints it.\<close>

fun showNat :: "nat \<Rightarrow> jsstring" where
  "showNat n =
     (if n < 10 then [of_nat (48 + n)]
      else showNat (n div 10) @ [of_nat (48 + n mod 10)])"

declare showNat.simps [simp del]

text \<open>\<open>Array.prototype.join\<close> on an array of strings.\<close>

fun join :: "jsstring \<Rightarrow> jsstring list \<Rightarrow> jsstring" where
  "join sep [] = []"
| "join sep [x] = x"
| "join sep (x # y # ys) = x @ sep @ join sep (y # ys)"

text \<open>
  \<open>Array.prototype.sort\<close> with a comparator is stable: an element goes before the
  elements that the comparator does not put before it.
\<close>

fun insert_by :: "('a \<Rightarrow> 'a \<Rightarrow> int) \<Rightarrow> 'a \<Rightarrow> 'a list \<Rightarrow> 'a list" where
  "insert_by cmp x [] = [x]"
| "insert_by cmp x (y # ys) = (if cmp x y \<le> 0 then x # y # ys else y # insert_by cmp x ys)"

definition Array_sort :: "('a \<Rightarrow> 'a \<Rightarrow> int) \<Rightarrow> 'a list \<Rightarrow> 'a list" where
  "Array_sort cmp xs = foldr (insert_by cmp) xs []"

text \<open>
  The table \<open>priorityOrder\<close>; on a value of the union type the default \<^verbatim>\<open>?? 1\<close> of
  the source is never taken.
\<close>

definition priorityOrder :: "priority \<Rightarrow> int" where
  "priorityOrder p = (case p of P0 \<Rightarrow> 0 | P1 \<Rightarrow> 1 | P2 \<Rightarrow> 2)"

text \<open>
  The comparator of the sort. \<open>getTime\<close> stands for
  \<^verbatim>\<open>s => new Date(s).getTime()\<close>, the parsing of a date by the runtime, on strings
  that are dates.
\<close>

definition compareThoughts ::
  "(jsstring \<Rightarrow> int) \<Rightarrow> BufferedThought \<Rightarrow> BufferedThought \<Rightarrow> int" where
  "compareThoughts getTime a b =
     (let pDiff = priorityOrder (priority a) - priorityOrder (priority b)
      in if pDiff \<noteq> 0 then pDiff
         else getTime (created_at a) - getTime (created_at b))"

text \<open>The callback of \<open>sorted.map\<close>: the line of thought \<open>t\<close> at index \<open>i\<close>.\<close>

definition formatLine :: "nat \<Rightarrow> BufferedThought \<Rightarrow> jsstring" where
  "formatLine i t =
     (let tag = (if priority t = P0 then lit '' [CRITICAL]''
                 else if priority t = P2 then lit '' [low]'' else []);
          escaped = escapeContent (content t)
      in showNat (i + 1) @ lit ''. ['' @ created_at t @ lit '']'' @ tag @ lit '' ''
           @ [dquote] @ escaped @ [dquote])"

text \<open>
  The arrays of thoughts live in a store: a reference to an array is its index, a new
  array gets the next index, and \<open>sort\<close> writes the array it is called on. The argument
  \<open>thoughts\<close> is a reference into the store. The spread \<^verbatim>\<open>[...thoughts]\<close> and
  \<open>filter\<close> make new arrays. The function assigns to no field of a thought, so an
  array holds the thoughts themselves, with their fields, rather than references to them.
\<close>

type_synonym store = "BufferedThought list list"

definition generateSynthesisPrompt ::
  "(jsstring \<Rightarrow> int) \<Rightarrow> store \<Rightarrow> nat \<Rightarrow> jsstring \<times> store" where
  "generateSynthesisPrompt getTime h thoughts =
     (if length (h ! thoughts) = 0 then
        (lit ''**SYSTEM: No buffered thoughts to synthesize.**'', h)
      else
        (let copy = length h;
             h1 = h @ [h ! thoughts];
             h2 = h1[copy := Array_sort (compareThoughts getTime) (h1 ! copy)];
             sorted = h2 ! copy;
             formatted = join [newline] (map (\<lambda>(i, t). formatLine i t) (enumerate 0 sorted));
             p0s = length h2;
             h3 = h2 @ [filter (\<lambda>t. priority t = P0) (h2 ! copy)];
             p0Count = length (h3 ! p0s);
             criticalNote =
               (if p0Count > 0 then
                  [newline, newline] @ lit ''**Note:** '' @ showNat p0Count
                    @ lit '' CRITICAL thought(s) '' @ [0x2014]
                    @ lit '' preserve unless clearly obsolete.''
                else [])
         in (lit ''**SYSTEM: NETWORK RECOVERED**'' @ [newline, newline]
               @ lit ''While congested, you drafted '' @ showNat (length (h3 ! thoughts))
               @ lit '' messages:'' @ [newline, newline]
               @ formatted @ [newline]
               @ criticalNote @ [newline, newline]
               @ lit ''**TASK:** Review against current channel state.'' @ [newline]
               @ lit ''- Discard obsolete/superseded thoughts'' @ [newline]
               @ lit ''- Synthesize remaining into ONE coherent message'' @ [newline]
               @ lit ''- Do not apologize or mention delays'',
             h3)))"

section \<open>plugin: latencyTracker and shouldBuffer\<close>

text \<open>
  The plugin keeps \<open>globalForcedBuffering\<close>, \<open>simulatedLatencyMs\<close> and \<open>systemHalted\<close> in
  module variables, here the three fields of a \<open>SystemState\<close>, and the samples in the
  object \<open>latencyTracker\<close>, whose methods read \<open>simulatedLatencyMs\<close>.
\<close>

definition plugin_record :: "LatencySample list \<Rightarrow> int \<Rightarrow> real \<Rightarrow> LatencySample list" where
  "plugin_record ss now x =
     (let pushed = ss @ [\<lparr>ts = now, latencyMs = x\<rparr>]
      in if length pushed > 100 then tl pushed else pushed)"

definition plugin_getAverage :: "SystemState \<Rightarrow> LatencySample list \<Rightarrow> int \<Rightarrow> int \<Rightarrow> real" where
  "plugin_getAverage g ss now windowMs =
     (let r = filter (\<lambda>s. now - ts s < windowMs) ss
      in if length r = 0 then simulatedLatencyMs g
         else max (foldl (\<lambda>sum s. sum + latencyMs s) 0 r / real (length r))
                  (simulatedLatencyMs g))"

definition plugin_getMax :: "SystemState \<Rightarrow> LatencySample list \<Rightarrow> int \<Rightarrow> int \<Rightarrow> real" where
  "plugin_getMax g ss now windowMs =
     (case map latencyMs (filter (\<lambda>s. now - ts s < windowMs) ss) of
        [] \<Rightarrow> simulatedLatencyMs g
      | x # xs \<Rightarrow> Math_max x (xs @ [simulatedLatencyMs g]))"

definition plugin_shouldBuffer ::
  "SystemState \<Rightarrow> LatencySample list \<Rightarrow> real \<Rightarrow> int \<Rightarrow> int \<Rightarrow> BufferStatus" where
  "plugin_shouldBuffer g ss threshold now later =
     (if systemHalted g then
        \<lparr>buffering = True, reason = [Text (lit ''SYSTEM HALTED'')], latencyMs = 0\<rparr>
      else if globalForcedBuffering g then
        \<lparr>buffering = True, reason = [Text (lit ''manual override'')],
         latencyMs = plugin_getAverage g ss now 60000\<rparr>
      else if simulatedLatencyMs g > threshold then
        \<lparr>buffering = True,
         reason = [Text (lit ''simulated ''), Num (simulatedLatencyMs g), Text (lit ''ms'')],
         latencyMs = simulatedLatencyMs g\<rparr>
      else
        (let maxLatency = plugin_getMax g ss now 60000
         in if maxLatency > threshold then
              \<lparr>buffering = True,
               reason = [Text (lit ''latency ''), Num (Math_round maxLatency),
                         Text (lit ''ms > ''), Num threshold, Text (lit ''ms'')],
               latencyMs = maxLatency\<rparr>
            else
              \<lparr>buffering = False, reason = [Text (lit ''healthy'')],
               latencyMs = plugin_getAverage g ss later 60000\<rparr>))"

section \<open>plugin: thought store\<close>

text \<open>
  The database of the plugin: the rows of \<open>buffered_thoughts\<close> in row-id order, the
  rows of \<open>synthesis_events\<close> in insertion order, and the \<open>AUTOINCREMENT\<close> counter of
  \<open>buffered_thoughts\<close>. The module variable \<open>db\<close> is \<open>null\<close> until the database is
  opened: \<open>None\<close>. The column \<open>priority\<close> is text under the constraint
  \<^verbatim>\<open>CHECK(priority IN ('P0', 'P1', 'P2'))\<close>, so a row holds a \<open>priority\<close> and
  \<open>priority_text\<close> is its text. The default \<^verbatim>\<open>datetime('now')\<close> of \<open>created_at\<close> and
  \<open>triggered_at\<close> is the argument \<open>now\<close> of the functions that insert a row.
\<close>

record Database =
  buffered_thoughts :: "BufferedThought list"
  synthesis_events :: "SynthesisEvent list"
  seq :: int

datatype sqlite_error = SQLITE_CONSTRAINT

definition priority_text :: "priority \<Rightarrow> jsstring" where
  "priority_text p = (case p of P0 \<Rightarrow> lit ''P0'' | P1 \<Rightarrow> lit ''P1'' | P2 \<Rightarrow> lit ''P2'')"

definition priority_of_text :: "jsstring \<Rightarrow> priority option" where
  "priority_of_text s =
     (if s = lit ''P0'' then Some P0
      else if s = lit ''P1'' then Some P1
      else if s = lit ''P2'' then Some P2
      else None)"

text \<open>
  \<^verbatim>\<open>SELECT * FROM buffered_thoughts WHERE agent_id = ? AND status = 'pending'
  ORDER BY priority ASC, created_at ASC\<close>: both sort columns are text and compare
  byte by byte in UTF-8. The query does not say in which order the rows that agree on
  both columns come; that is left to the engine, here the argument \<open>tie\<close>, a ranking
  of the rows that decides among such rows (rows of the same rank come in table order).
\<close>

definition getPendingThoughts ::
  "(BufferedThought \<Rightarrow> nat) \<Rightarrow> Database option \<Rightarrow> jsstring \<Rightarrow> BufferedThought list" where
  "getPendingThoughts tie db agentId =
     (case db of
        None \<Rightarrow> []
      | Some d \<Rightarrow>
          sort_key (\<lambda>t. (utf8 (priority_text (priority t)), utf8 (created_at t), tie t))
            (filter (\<lambda>t. agent_id t = agentId \<and> status t = lit ''pending'')
               (buffered_thoughts d)))"

definition getAllPendingAgents :: "Database option \<Rightarrow> jsstring list" where
  "getAllPendingAgents db =
     (case db of
        None \<Rightarrow> []
      | Some d \<Rightarrow>
          remdups (map agent_id
            (filter (\<lambda>t. status t = lit ''pending'') (buffered_thoughts d))))"

definition getPendingCount :: "Database option \<Rightarrow> jsstring option \<Rightarrow> int" where
  "getPendingCount db agentId =
     (case db of
        None \<Rightarrow> 0
      | Some d \<Rightarrow>
          (if agentId \<noteq> None \<and> agentId \<noteq> Some [] then
             int (length (filter (\<lambda>t. Some (agent_id t) = agentId \<and> status t = lit ''pending'')
                            (buffered_thoughts d)))
           else int (length (filter (\<lambda>t. status t = lit ''pending'') (buffered_thoughts d)))))"

text \<open>
  \<open>insertThought\<close> returns the new row id, or \<open>-1\<close> without a database; the statement
  throws when the constraint on \<open>priority\<close> fails, and then nothing is written.
\<close>

definition insertThought ::
  "Database option \<Rightarrow> jsstring \<Rightarrow> jsstring \<Rightarrow> jsstring \<Rightarrow> jsstring \<Rightarrow> jsstring \<Rightarrow> jsstring
     \<Rightarrow> sqlite_error + int \<times> Database option" where
  "insertThought db now agentId chan targ cont prio =
     (case db of
        None \<Rightarrow> Inr (- 1, None)
      | Some d \<Rightarrow>
          (case priority_of_text (if prio = [] then lit ''P1'' else prio) of
             None \<Rightarrow> Inl SQLITE_CONSTRAINT
           | Some p \<Rightarrow>
               (let rowid = seq d + 1;
                    row = \<lparr>thought_id = rowid, agent_id = agentId, channel = chan,
                           target = (if targ = [] then [] else targ), content = cont,
                           priority = p, created_at = now, status = lit ''pending''\<rparr>
                in Inr (rowid,
                        Some (d\<lparr>buffered_thoughts := buffered_thoughts d @ [row],
                                seq := rowid\<rparr>)))))"

text \<open>
  \<open>markSynthesized(agentId, output?)\<close> returns nothing; the result here is the
  database after the call. The \<open>UPDATE\<close> names the rows by their ids, and
  \<^verbatim>\<open>output || null\<close> is \<open>null\<close> for a missing and for an empty \<open>output\<close>.
\<close>

definition markSynthesized ::
  "(BufferedThought \<Rightarrow> nat) \<Rightarrow> Database option \<Rightarrow> jsstring \<Rightarrow> jsstring \<Rightarrow> jsstring option
     \<Rightarrow> Database option" where
  "markSynthesized tie db now agentId output =
     (case db of
        None \<Rightarrow> None
      | Some d \<Rightarrow>
          (let thoughts = getPendingThoughts tie db agentId
           in if length thoughts = 0 then db
              else
                (let ids = map thought_id thoughts;
                     d1 = d\<lparr>buffered_thoughts :=
                             map (\<lambda>t. if thought_id t \<in> set ids
                                       then t\<lparr>status := lit ''synthesized''\<rparr> else t)
                                 (buffered_thoughts d)\<rparr>;
                     d2 = d1\<lparr>synthesis_events := synthesis_events d1 @
                             [\<lparr>SynthesisEvent.agent_id = agentId, thoughts_count = int (length ids),
                               final_output =
                                 (if output = None \<or> output = Some [] then None else output),
                               triggered_at = now\<rparr>]\<rparr>
                 in Some d2)))"

section \<open>thought buffer: getPendingThoughts\<close>

text \<open>
  The query of the older thought buffer (\<open>src/index.ts\<close>):
  \<^verbatim>\<open>SELECT * FROM buffered_thoughts WHERE agent_id = ? AND synthesized_at IS NULL
  AND discarded = 0 ORDER BY created_at ASC\<close>. Its database is the table, or \<open>None\<close>
  while \<open>db\<close> is \<open>null\<close>. The order of its \<open>generateSynthesisPrompt\<close> among the
  priorities is \<open>tb_priorityOrder\<close>.
\<close>

definition tb_getPendingThoughts ::
  "(tb_BufferedThought \<Rightarrow> nat) \<Rightarrow> tb_BufferedThought list option \<Rightarrow> jsstring
     \<Rightarrow> tb_BufferedThought list" where
  "tb_getPendingThoughts tie db agentId =
     (case db of
        None \<Rightarrow> []
      | Some rows \<Rightarrow>
          sort_key (\<lambda>t. (utf8 (tb_BufferedThought.created_at t), tie t))
            (filter (\<lambda>t. tb_BufferedThought.agent_id t = agentId \<and> synthesized_at t = None
                          \<and> discarded t = 0) rows))"

definition tb_priorityOrder :: "tb_priority \<Rightarrow> int" where
  "tb_priorityOrder p = (case p of High \<Rightarrow> 0 | Normal \<Rightarrow> 1 | Low \<Rightarrow> 2)"

section \<open>plugin: generateSynthesisPrompt and the flush handler\<close>

text \<open>
  The plugin has its own copy of \<open>generateSynthesisPrompt\<close>, without the test for an
  empty array, the sort, the escaping and the note. It reads its argument and writes no
  array. \<open>flush_agent\<close> is the body of the loop of the \<^verbatim>\<open>/flush\<close> handler for one
  agent: the database after it and the entry pushed to \<open>results\<close>, if any.
\<close>

definition plugin_formatLine :: "nat \<Rightarrow> BufferedThought \<Rightarrow> jsstring" where
  "plugin_formatLine i t =
     (let tag = (if priority t = P0 then lit '' [CRITICAL]''
                 else if priority t = P2 then lit '' [low]'' else [])
      in showNat (i + 1) @ lit ''. ['' @ created_at t @ lit '']'' @ tag @ lit '' ''
           @ [dquote] @ content t @ [dquote])"

definition plugin_generateSynthesisPrompt :: "BufferedThought list \<Rightarrow> jsstring" where
  "plugin_generateSynthesisPrompt thoughts =
     (let formatted =
            join [newline] (map (\<lambda>(i, t). plugin_formatLine i t) (enumerate 0 thoughts))
      in lit ''**SYSTEM: NETWORK RECOVERED**'' @ [newline, newline]
           @ lit ''While congested, you drafted '' @ showNat (length thoughts)
           @ lit '' messages:'' @ [newline, newline]
           @ formatted @ [newline, newline]
           @ lit ''**TASK:** Review against current channel state.'' @ [newline]
           @ lit ''- Discard obsolete/superseded thoughts'' @ [newline]
           @ lit ''- Synthesize remaining into ONE coherent message'' @ [newline]
           @ lit ''- Do not apologize or mention delays'')"

definition flush_agent ::
  "(BufferedThought \<Rightarrow> nat) \<Rightarrow> Database option \<Rightarrow> jsstring \<Rightarrow> jsstring
     \<Rightarrow> Database option \<times> jsstring option" where
  "flush_agent tie db now agentId =
     (let thoughts = getPendingThoughts tie db agentId
      in if length thoughts = 0 then (db, None)
         else
           (let prompt = plugin_generateSynthesisPrompt thoughts
            in (markSynthesized tie db now agentId (Some prompt),
                Some (lit ''### '' @ agentId @ lit '' ('' @ showNat (length thoughts)
                        @ lit '' thoughts)'' @ [newline, newline] @ prompt))))"

section \<open>Example data\<close>

text \<open>
  Three thoughts of the agent \<open>main\<close>, buffered in the order low, critical, normal, and
  one of another agent. The content of the critical one holds a backslash, a double
  quote, a newline and a character outside the Basic Multilingual Plane.
\<close>

definition example_low :: BufferedThought where
  "example_low =
     \<lparr>thought_id = 1, agent_id = lit ''main'', channel = lit ''slack'', target = [],
      content = lit ''low one'', priority = P2,
      created_at = lit ''2024-01-01 10:00:00'', status = lit ''pending''\<rparr>"

definition example_critical :: BufferedThought where
  "example_critical =
     \<lparr>thought_id = 2, agent_id = lit ''main'', channel = lit ''slack'', target = [],
      content = [0x61, 0x5C, 0x22, 0x0A, 0xD83E, 0xDDAB], priority = P0,
      created_at = lit ''2024-01-01 10:00:01'', status = lit ''pending''\<rparr>"

definition example_normal :: BufferedThought where
  "example_normal =
     \<lparr>thought_id = 3, agent_id = lit ''main'', channel = lit ''slack'', target = [],
      content = lit ''normal one'', priority = P1,
      created_at = lit ''2024-01-01 10:00:02'', status = lit ''pending''\<rparr>"

definition example_other :: BufferedThought where
  "example_other =
     \<lparr>thought_id = 4, agent_id = lit ''architect'', channel = lit ''slack'', target = [],
      content = lit ''other agent'', priority = P0,
      created_at = lit ''2024-01-01 10:00:03'', status = lit ''pending''\<rparr>"

definition example_db :: Database where
  "example_db =
     \<lparr>buffered_thoughts = [example_low, example_critical, example_normal, example_other],
      synthesis_events = [], seq = 4\<rparr>"

text \<open>
  Two thoughts of one agent with the same priority, buffered within the same second, and
  a table of the older thought buffer with a low thought buffered before a high one.
\<close>

definition example_first :: BufferedThought where
  "example_first =
     \<lparr>thought_id = 1, agent_id = lit ''main'', channel = lit ''slack'', target = [],
      content = lit ''first'', priority = P1,
      created_at = lit ''2024-01-01 10:00:00'', status = lit ''pending''\<rparr>"

definition example_second :: BufferedThought where
  "example_second =
     \<lparr>thought_id = 2, agent_id = lit ''main'', channel = lit ''slack'', target = [],
      content = lit ''second'', priority = P1,
      created_at = lit ''2024-01-01 10:00:00'', status = lit ''pending''\<rparr>"

definition example_twins_db :: Database where
  "example_twins_db =
     \<lparr>buffered_thoughts = [example_first, example_second], synthesis_events = [], seq = 2\<rparr>"

definition example_tb_low :: tb_BufferedThought where
  "example_tb_low =
     \<lparr>tb_BufferedThought.thought_id = 1, agent_id = lit ''main'', channel = lit ''slack'',
      target = [], content = lit ''low one'', priority = Low,
      created_at = lit ''2024-01-01 10:00:00'', synthesized_at = None, discarded = 0,
      metadata = None\<rparr>"

definition example_tb_high :: tb_BufferedThought where
  "example_tb_high =
     \<lparr>tb_BufferedThought.thought_id = 2, agent_id = lit ''main'', channel = lit ''slack'',
      target = [], content = lit ''high one'', priority = High,
      created_at = lit ''2024-01-01 10:00:01'', synthesized_at = None, discarded = 0,
      metadata = None\<rparr>"

section \<open>Health monitor\<close>

lemma record_all_snoc:
  "record_all t (calls @ [c]) = tracker_record (record_all t calls) (fst c) (snd c)"
  by (simp add: record_all_def case_prod_beta)

lemma maxSamples_tracker_record: "maxSamples (tracker_record t now x) = maxSamples t"
  by (simp add: tracker_record_def Let_def)

lemma maxSamples_record_all: "maxSamples (record_all t calls) = maxSamples t"
proof (induction calls rule: rev_induct)
  case Nil
  show ?case by (simp add: record_all_def)
next
  case (snoc c cs)
  then show ?case by (simp add: record_all_snoc maxSamples_tracker_record)
qed

lemma samples_tracker_record:
  "samples (tracker_record t now x) =
     (if maxSamples t < int (length (samples t)) + 1
      then tl (samples t @ [sample_of_call (now, x)])
      else samples t @ [sample_of_call (now, x)])"
  by (simp add: tracker_record_def Let_def sample_of_call_def)

lemma tl_drop_snoc: "d \<le> length L \<Longrightarrow> tl (drop d L @ [m]) = drop (Suc d) (L @ [m])"
  by (cases "d = length L") (simp_all add: tl_drop drop_Suc)

text \<open>
  From a window within its capacity, a sequence of calls leaves the last \<open>maxSamples\<close>
  of the old samples followed by the new ones.
\<close>

lemma samples_record_all:
  assumes "int (length (samples t)) \<le> maxSamples t"
  shows "samples (record_all t calls) =
           drop (length (samples t) + length calls - nat (maxSamples t))
                (samples t @ map sample_of_call calls)"
proof (induction calls rule: rev_induct)
  case Nil
  from assms show ?case by (simp add: record_all_def)
next
  case (snoc c cs)
  define L where "L = samples t @ map sample_of_call cs"
  define d where "d = length (samples t) + length cs - nat (maxSamples t)"
  define S where "S = samples (record_all t cs)"
  have L': "samples t @ map sample_of_call (cs @ [c]) = L @ [sample_of_call c]"
    by (simp add: L_def)
  have lenL: "length L = length (samples t) + length cs" by (simp add: L_def)
  have S: "S = drop d L" unfolding S_def L_def d_def by (rule snoc.IH)
  have d: "d \<le> length L" by (simp add: d_def lenL)
  have lenS: "length S = length L - d" by (simp add: S)
  have step: "samples (record_all t (cs @ [c])) =
      (if maxSamples t < int (length S) + 1
       then tl (S @ [sample_of_call c]) else S @ [sample_of_call c])"
    by (simp add: record_all_snoc samples_tracker_record maxSamples_record_all S_def)
  show ?case
  proof (cases "nat (maxSamples t) \<le> length (samples t) + length cs")
    case True
    then have "maxSamples t < int (length S) + 1"
      using assms by (simp add: lenS lenL d_def)
    moreover have "length (samples t) + length (cs @ [c]) - nat (maxSamples t) = Suc d"
      using True by (simp add: d_def)
    ultimately show ?thesis
      using tl_drop_snoc [OF d, of "sample_of_call c"]
      by (simp only: step L' S if_True)
  next
    case False
    then have z: "d = 0" "length (samples t) + length (cs @ [c]) - nat (maxSamples t) = 0"
      by (simp_all add: d_def)
    have "\<not> maxSamples t < int (length S) + 1"
      using False by (simp add: lenS lenL z)
    then show ?thesis
      by (simp only: step L' S z if_False drop_0)
  qed
qed

lemma Math_max_eq_Max: "Math_max x xs = Max (set (x # xs))"
proof -
  have "Math_max x xs = fold max xs x"
    by (induction xs arbitrary: x) (simp_all add: max.commute)
  then show ?thesis by (simp only: Max.set_eq_fold)
qed

lemma Math_max_ge: "y \<in> set (x # xs) \<Longrightarrow> y \<le> Math_max x xs"
  by (simp only: Math_max_eq_Max) (rule Max_ge, simp_all)

lemma nonneg_tracker_record:
  "\<forall>s \<in> set (samples t). 0 \<le> latencyMs s \<Longrightarrow>
   \<forall>s \<in> set (samples (tracker_record t now x)). 0 \<le> latencyMs s"
  by (auto simp: tracker_record_def Let_def dest!: list.set_sel(2) [rotated])

lemma nonneg_record_all:
  "\<forall>s \<in> set (samples t). 0 \<le> latencyMs s \<Longrightarrow>
   \<forall>s \<in> set (samples (record_all t calls)). 0 \<le> latencyMs s"
proof (induction calls rule: rev_induct)
  case Nil
  then show ?case by (simp add: record_all_def)
next
  case (snoc c cs)
  then show ?case
    by (simp only: record_all_snoc) (rule nonneg_tracker_record, simp)
qed

text \<open>
  C6 (as amended). After any sequence of \<open>record\<close> calls on a new tracker, for every
  clock reading, window and fallback: \<open>getMax\<close> is not below any sample that is still in
  the tracker and whose timestamp lies within the window; it is not negative when the
  fallback is not negative or some sample lies within the window; and when no sample lies
  within the window it is the fallback, unchanged.
\<close>

theorem getMax_bounds:
  assumes "t = record_all (new_LatencyTracker n) calls"
  shows "(\<forall>s \<in> set (samples t). now - ts s < windowMs \<longrightarrow>
            latencyMs s \<le> getMax t now windowMs fallback)
       \<and> (0 \<le> fallback \<or> recent t now windowMs \<noteq> [] \<longrightarrow>
            0 \<le> getMax t now windowMs fallback)
       \<and> (recent t now windowMs = [] \<longrightarrow> getMax t now windowMs fallback = fallback)"
proof -
  have nn: "\<forall>s \<in> set (samples t). 0 \<le> latencyMs s"
    unfolding assms by (rule nonneg_record_all) (simp add: new_LatencyTracker_def)
  have ge: "latencyMs s \<le> getMax t now windowMs fallback"
    if "s \<in> set (samples t)" "now - ts s < windowMs" for s
  proof -
    from that have "latencyMs s \<in> set (map latencyMs (recent t now windowMs))"
      by (simp add: recent_def)
    then show ?thesis
      by (cases "map latencyMs (recent t now windowMs)")
         (auto simp: getMax_def intro: Math_max_ge simp del: map_eq_conv)
  qed
  have pos: "0 \<le> getMax t now windowMs fallback" if "recent t now windowMs \<noteq> []"
  proof -
    from that obtain s where s: "s \<in> set (recent t now windowMs)"
      by (cases "recent t now windowMs") auto
    then have "s \<in> set (samples t)" "now - ts s < windowMs" by (simp_all add: recent_def)
    with nn ge [of s] show ?thesis by force
  qed
  have emp: "getMax t now windowMs fallback = fallback" if "recent t now windowMs = []"
    using that by (simp add: getMax_def)
  show ?thesis using ge pos emp by (cases "recent t now windowMs = []") auto
qed

theorem getMax_bounds_witness:
  "\<lparr>ts = 1500, latencyMs = 200\<rparr>
      \<in> set (samples (record_all (new_LatencyTracker None) [(1000, - 500), (1500, 200)]))
   \<and> (2000::int) - 1500 < 60000
   \<and> 200 \<le> getMax (record_all (new_LatencyTracker None) [(1000, - 500), (1500, 200)])
              2000 60000 0
   \<and> recent (record_all (new_LatencyTracker None) [(1000, - 500), (1500, 200)]) 2000 60000 \<noteq> []
   \<and> 0 \<le> getMax (record_all (new_LatencyTracker None) [(1000, - 500), (1500, 200)])
            2000 60000 0
   \<and> recent (record_all (new_LatencyTracker None) [(1000, - 500), (1500, 200)]) 200000 60000 = []
   \<and> getMax (record_all (new_LatencyTracker None) [(1000, - 500), (1500, 200)])
        200000 60000 7 = 7"
proof -
  let ?t = "record_all (new_LatencyTracker None) [(1000, - 500), (1500, 200)]"
  have s: "samples ?t = [\<lparr>ts = 1000, latencyMs = 0\<rparr>, \<lparr>ts = 1500, latencyMs = 200\<rparr>]"
    by (simp add: record_all_def tracker_record_def new_LatencyTracker_def)
  have r1: "recent ?t 2000 60000 \<noteq> []" and r2: "recent ?t 200000 60000 = []"
    by (simp_all add: recent_def s)
  show ?thesis
    using s r1 r2
      getMax_bounds [of ?t None "[(1000, - 500), (1500, 200)]" 2000 60000 0]
      getMax_bounds [of ?t None "[(1000, - 500), (1500, 200)]" 200000 60000 7]
    by simp
qed

text \<open>
  C6 as stated says that \<open>getMax\<close> never returns a negative value. With a negative
  fallback it does: on a new tracker, and on a tracker whose only sample has left the
  window.
\<close>

theorem getMax_negative_counterexample:
  "getMax (record_all (new_LatencyTracker None) []) 2000 60000 (- 1) < 0
   \<and> getMax (record_all (new_LatencyTracker None) [(1000, 500)]) 200000 60000 (- 1) < 0"
  by (simp add: getMax_def recent_def record_all_def new_LatencyTracker_def tracker_record_def)

text \<open>
  C7. \<open>record\<close> is a total function: it has no error branch. One call stores the
  argument clamped at 0 with the clock reading, at the end of the window, and removes the
  first (oldest) sample exactly when the window was already full. So after any sequence
  of calls on a new tracker of capacity \<open>n \<ge> 0\<close> the window holds the samples of the
  last \<open>n\<close> calls, in the order of the calls, and never more than \<open>n\<close> samples. The
  capacity never changes, and it is 100 when the constructor gets no argument.
\<close>

theorem record_bounded_fifo:
  assumes "0 \<le> n"
  shows "samples (tracker_record t now x) =
           (if int (length (samples t)) < maxSamples t
            then samples t @ [\<lparr>ts = now, latencyMs = max 0 x\<rparr>]
            else tl (samples t @ [\<lparr>ts = now, latencyMs = max 0 x\<rparr>]))
       \<and> sample_of_call (now, x) = \<lparr>ts = now, latencyMs = (if x < 0 then 0 else x)\<rparr>
       \<and> samples (record_all (new_LatencyTracker (Some n)) calls) =
           drop (length calls - nat n) (map sample_of_call calls)
       \<and> int (length (samples (record_all (new_LatencyTracker (Some n)) calls))) \<le> n
       \<and> maxSamples (record_all (new_LatencyTracker (Some n)) calls) = n
       \<and> maxSamples (new_LatencyTracker None) = 100"
proof -
  have one: "samples (tracker_record t now x) =
           (if int (length (samples t)) < maxSamples t
            then samples t @ [\<lparr>ts = now, latencyMs = max 0 x\<rparr>]
            else tl (samples t @ [\<lparr>ts = now, latencyMs = max 0 x\<rparr>]))"
    by (simp add: tracker_record_def Let_def)
  have "int (length (samples (new_LatencyTracker (Some n)))) \<le>
          maxSamples (new_LatencyTracker (Some n))"
    using assms by (simp add: new_LatencyTracker_def)
  from samples_record_all [OF this, of calls]
  have seq: "samples (record_all (new_LatencyTracker (Some n)) calls) =
           drop (length calls - nat n) (map sample_of_call calls)"
    by (simp add: new_LatencyTracker_def)
  have len: "int (length (samples (record_all (new_LatencyTracker (Some n)) calls))) \<le> n"
    using assms by (simp add: seq)
  have cap: "maxSamples (record_all (new_LatencyTracker (Some n)) calls) = n"
    by (simp add: maxSamples_record_all new_LatencyTracker_def)
  have clamp: "sample_of_call (now, x) = \<lparr>ts = now, latencyMs = (if x < 0 then 0 else x)\<rparr>"
    by (simp add: sample_of_call_def max_def)
  show ?thesis
    using one clamp seq len cap by (simp add: new_LatencyTracker_def)
qed

theorem record_bounded_fifo_witness:
  "(0::int) \<le> 2
   \<and> samples (tracker_record \<lparr>samples = [\<lparr>ts = 1, latencyMs = 50\<rparr>], maxSamples = 2\<rparr> 2 (- 500)) =
       [\<lparr>ts = 1, latencyMs = 50\<rparr>, \<lparr>ts = 2, latencyMs = 0\<rparr>]
   \<and> samples (record_all (new_LatencyTracker (Some 2)) [(1, 50), (2, - 500), (3, 70)]) =
       [\<lparr>ts = 2, latencyMs = 0\<rparr>, \<lparr>ts = 3, latencyMs = 70\<rparr>]
   \<and> int (length (samples (record_all (new_LatencyTracker (Some 2))
                              [(1, 50), (2, - 500), (3, 70)]))) \<le> 2"
  using record_bounded_fifo
    [of 2 "\<lparr>samples = [\<lparr>ts = 1, latencyMs = 50\<rparr>], maxSamples = 2\<rparr>" 2 "- 500"
        "[(1, 50), (2, - 500), (3, 70)]"]
  by (simp add: sample_of_call_def)

section \<open>Decision engine\<close>

text \<open>
  C1 (as amended). The halt rule is the first rule of \<open>shouldBuffer\<close>: for every tracker,
  every threshold, every clock reading and every state with \<open>systemHalted = true\<close>,
  whatever \<open>globalForcedBuffering\<close> and \<open>simulatedLatencyMs\<close> are, the result is
  \<open>buffering = true\<close>, \<open>latencyMs = 0\<close> and the reason \<open>SYSTEM HALTED\<close>; the result
  depends on nothing that a later rule reads. The same holds for the plugin's copy of the
  function, which reads the state from module variables.
\<close>

theorem shouldBuffer_halt_wins:
  "systemHalted state \<Longrightarrow>
     shouldBuffer tracker threshold state now later =
       \<lparr>buffering = True, reason = [Text (lit ''SYSTEM HALTED'')], latencyMs = 0\<rparr>
   \<and> plugin_shouldBuffer state ss threshold now later =
       \<lparr>buffering = True, reason = [Text (lit ''SYSTEM HALTED'')], latencyMs = 0\<rparr>"
  by (simp add: shouldBuffer_def plugin_shouldBuffer_def)

theorem shouldBuffer_halt_wins_witness:
  "systemHalted \<lparr>globalForcedBuffering = True, simulatedLatencyMs = 99999, systemHalted = True\<rparr>
   \<and> shouldBuffer (tracker_record (new_LatencyTracker (Some 100)) 1000 20000) 5000
        \<lparr>globalForcedBuffering = True, simulatedLatencyMs = 99999, systemHalted = True\<rparr>
        2000 2001 =
       \<lparr>buffering = True, reason = [Text (lit ''SYSTEM HALTED'')], latencyMs = 0\<rparr>
   \<and> plugin_shouldBuffer
        \<lparr>globalForcedBuffering = True, simulatedLatencyMs = 99999, systemHalted = True\<rparr>
        (plugin_record [] 1000 20000) 5000 2000 2001 =
       \<lparr>buffering = True, reason = [Text (lit ''SYSTEM HALTED'')], latencyMs = 0\<rparr>"
  using shouldBuffer_halt_wins
    [of "\<lparr>globalForcedBuffering = True, simulatedLatencyMs = 99999, systemHalted = True\<rparr>"
        "tracker_record (new_LatencyTracker (Some 100)) 1000 20000" 5000 2000 2001
        "plugin_record [] 1000 20000"]
  by simp

text \<open>
  C1 as stated asks for the reason \<open>halted\<close>. With \<open>systemHalted\<close>,
  \<open>globalForcedBuffering\<close>, \<open>simulatedLatencyMs = 99999\<close> and a recorded latency of
  20000 ms, the reason that \<open>shouldBuffer\<close> returns is not that string.
\<close>

theorem shouldBuffer_halt_reason_counterexample:
  "BufferStatus.reason
     (shouldBuffer (tracker_record (new_LatencyTracker (Some 100)) 1000 20000) 5000
        \<lparr>globalForcedBuffering = True, simulatedLatencyMs = 99999, systemHalted = True\<rparr>
        2000 2001)
     \<noteq> [Text (lit ''halted'')]"
  by (simp add: shouldBuffer_def lit_def)

text \<open>
  C2. With \<open>systemHalted = false\<close>, \<open>globalForcedBuffering = false\<close> and
  \<open>simulatedLatencyMs\<close> not above the threshold, the comparison with the threshold is
  strict: a window maximum equal to the threshold gives \<open>buffering = false\<close> with the
  reason \<open>healthy\<close>, a window maximum of the threshold plus one gives
  \<open>buffering = true\<close>, and in general the
  decision is to buffer exactly when the window maximum is above the threshold.
\<close>

theorem shouldBuffer_threshold_strict:
  assumes "\<not> systemHalted state" and "\<not> globalForcedBuffering state"
    and "simulatedLatencyMs state \<le> threshold"
  shows "(getMax tracker now 60000 (simulatedLatencyMs state) = threshold \<longrightarrow>
            \<not> buffering (shouldBuffer tracker threshold state now later)
            \<and> BufferStatus.reason (shouldBuffer tracker threshold state now later) =
                [Text (lit ''healthy'')])
       \<and> (getMax tracker now 60000 (simulatedLatencyMs state) = threshold + 1 \<longrightarrow>
            buffering (shouldBuffer tracker threshold state now later))
       \<and> buffering (shouldBuffer tracker threshold state now later) =
            (threshold < getMax tracker now 60000 (simulatedLatencyMs state))"
  using assms by (simp add: shouldBuffer_def Let_def)

theorem shouldBuffer_threshold_strict_witness:
  "\<not> systemHalted \<lparr>globalForcedBuffering = False, simulatedLatencyMs = 0, systemHalted = False\<rparr>
   \<and> \<not> globalForcedBuffering
        \<lparr>globalForcedBuffering = False, simulatedLatencyMs = 0, systemHalted = False\<rparr>
   \<and> simulatedLatencyMs
        \<lparr>globalForcedBuffering = False, simulatedLatencyMs = 0, systemHalted = False\<rparr> \<le> 5000
   \<and> getMax (tracker_record (new_LatencyTracker (Some 100)) 1000 5000) 2000 60000 0 = 5000
   \<and> \<not> buffering (shouldBuffer (tracker_record (new_LatencyTracker (Some 100)) 1000 5000) 5000
        \<lparr>globalForcedBuffering = False, simulatedLatencyMs = 0, systemHalted = False\<rparr>
        2000 2001)
   \<and> BufferStatus.reason
        (shouldBuffer (tracker_record (new_LatencyTracker (Some 100)) 1000 5000) 5000
           \<lparr>globalForcedBuffering = False, simulatedLatencyMs = 0, systemHalted = False\<rparr>
           2000 2001) = [Text (lit ''healthy'')]
   \<and> getMax (tracker_record (new_LatencyTracker (Some 100)) 1000 5001) 2000 60000 0 = 5000 + 1
   \<and> buffering (shouldBuffer (tracker_record (new_LatencyTracker (Some 100)) 1000 5001) 5000
        \<lparr>globalForcedBuffering = False, simulatedLatencyMs = 0, systemHalted = False\<rparr>
        2000 2001)"
proof -
  let ?st = "\<lparr>globalForcedBuffering = False, simulatedLatencyMs = 0, systemHalted = False\<rparr>"
  have h: "\<not> systemHalted ?st" "\<not> globalForcedBuffering ?st" "simulatedLatencyMs ?st \<le> 5000"
    by simp_all
  have m0: "getMax (tracker_record (new_LatencyTracker (Some 100)) 1000 5000) 2000 60000 0 = 5000"
    by (simp add: getMax_def recent_def tracker_record_def new_LatencyTracker_def)
  have m1: "getMax (tracker_record (new_LatencyTracker (Some 100)) 1000 5001) 2000 60000 0 = 5000 + 1"
    by (simp add: getMax_def recent_def tracker_record_def new_LatencyTracker_def)
  show ?thesis
    using h m0 m1
      shouldBuffer_threshold_strict
        [OF h, of "tracker_record (new_LatencyTracker (Some 100)) 1000 5000" 2000 2001]
      shouldBuffer_threshold_strict
        [OF h, of "tracker_record (new_LatencyTracker (Some 100)) 1000 5001" 2000 2001]
    by simp
qed

section \<open>Validation\<close>

lemma trim_Nil_iff: "trim s = [] \<longleftrightarrow> (\<forall>c \<in> set s. is_whitespace c)"
proof -
  have "trim s = [] \<longleftrightarrow> (\<forall>c \<in> set (dropWhile is_whitespace s). is_whitespace c)"
    by (simp add: trim_def dropWhile_eq_Nil_conv)
  also have "\<dots> \<longleftrightarrow> (\<forall>c \<in> set s. is_whitespace c)"
  proof
    assume a: "\<forall>c \<in> set (dropWhile is_whitespace s). is_whitespace c"
    have "dropWhile is_whitespace s = []"
    proof (rule ccontr)
      assume n: "dropWhile is_whitespace s \<noteq> []"
      then have "hd (dropWhile is_whitespace s) \<in> set (dropWhile is_whitespace s)"
        by (rule hd_in_set)
      with a hd_dropWhile [OF n] show False by blast
    qed
    then show "\<forall>c \<in> set s. is_whitespace c" by (simp only: dropWhile_eq_Nil_conv)
  next
    assume "\<forall>c \<in> set s. is_whitespace c"
    then show "\<forall>c \<in> set (dropWhile is_whitespace s). is_whitespace c"
      by (blast dest: set_dropWhileD)
  qed
  finally show ?thesis .
qed

lemma Math_round_neg: "x < 0 \<Longrightarrow> Math_round x \<le> 0"
  unfolding Math_round_def by (simp add: floor_le_iff)

lemma Math_round_near: "\<bar>Math_round x - x\<bar> \<le> 1 / 2"
  unfolding Math_round_def by linarith

text \<open>
  C8. The three validation functions are total: on every value they return a result,
  and none of their branches throws. \<open>validatePriority\<close> returns \<open>P1\<close> for every value
  that is not exactly one of the strings \<open>P0\<close>, \<open>P1\<close>, \<open>P2\<close>, and the priority itself
  for these. \<open>validateLatency\<close> returns 0 for every value that is not a finite number
  and for every negative number, and a finite number that is not negative rounded to
  the nearest integer; its result is never negative. \<open>validateThought\<close> returns
  \<open>null\<close> exactly for a value that is not a string and for a string that is empty after
  trimming (one of whitespace only); any other string longer than 50000 code units is cut
  to its first 50000, and any other string is returned as it is.
\<close>

theorem validation_normalizes:
  "(p \<noteq> String (lit ''P0'') \<and> p \<noteq> String (lit ''P1'') \<and> p \<noteq> String (lit ''P2'')
      \<longrightarrow> validatePriority p = P1)
   \<and> validatePriority (String (lit ''P0'')) = P0
   \<and> validatePriority (String (lit ''P1'')) = P1
   \<and> validatePriority (String (lit ''P2'')) = P2
   \<and> ((\<forall>x. ms \<noteq> Number (Finite x)) \<longrightarrow> validateLatency ms = 0)
   \<and> (x < 0 \<longrightarrow> validateLatency (Number (Finite x)) = 0)
   \<and> (0 \<le> x \<longrightarrow> validateLatency (Number (Finite x)) = of_int \<lfloor>x + 1 / 2\<rfloor>
                 \<and> \<bar>validateLatency (Number (Finite x)) - x\<bar> \<le> 1 / 2)
   \<and> 0 \<le> validateLatency ms \<and> validateLatency ms \<in> \<int>
   \<and> (validateThought thought = None \<longleftrightarrow>
        (\<forall>s. thought \<noteq> String s) \<or> (\<exists>s. thought = String s \<and> trim s = []))
   \<and> (trim s \<noteq> [] \<and> length s > 50000 \<longrightarrow>
        validateThought (String s) = Some (take 50000 s) \<and> length (take 50000 s) = 50000)
   \<and> (trim s \<noteq> [] \<and> length s \<le> 50000 \<longrightarrow> validateThought (String s) = Some s)
   \<and> (trim s = [] \<longleftrightarrow> (\<forall>c \<in> set s. is_whitespace c))"
proof -
  have pr: "validatePriority p = P1"
    if "p \<noteq> String (lit ''P0'') \<and> p \<noteq> String (lit ''P1'') \<and> p \<noteq> String (lit ''P2'')"
    using that by (simp add: validatePriority_def)
  have pv: "validatePriority (String (lit ''P0'')) = P0"
    "validatePriority (String (lit ''P1'')) = P1"
    "validatePriority (String (lit ''P2'')) = P2"
    by (simp_all add: validatePriority_def lit_def)
  have l0: "validateLatency ms = 0" if "\<forall>x. ms \<noteq> Number (Finite x)"
    using that by (auto simp: validateLatency_def split: jsval.splits jsnum.splits)
  have l1: "validateLatency (Number (Finite x)) = 0" if "x < 0"
    using Math_round_neg [OF that] by (simp add: validateLatency_def)
  have l2: "validateLatency (Number (Finite x)) = of_int \<lfloor>x + 1 / 2\<rfloor>
      \<and> \<bar>validateLatency (Number (Finite x)) - x\<bar> \<le> 1 / 2" if "0 \<le> x"
  proof -
    have "0 \<le> Math_round x" using that unfolding Math_round_def by simp
    then have "validateLatency (Number (Finite x)) = Math_round x"
      by (simp add: validateLatency_def)
    then show ?thesis using Math_round_near [of x] by (simp add: Math_round_def)
  qed
  have l3: "0 \<le> validateLatency ms \<and> validateLatency ms \<in> \<int>"
    by (auto simp: validateLatency_def Math_round_def max_def split: jsval.splits jsnum.splits)
  have t0: "validateThought thought = None \<longleftrightarrow>
        (\<forall>s. thought \<noteq> String s) \<or> (\<exists>s. thought = String s \<and> trim s = [])"
    by (cases thought) (simp_all add: validateThought_def)
  have t1: "validateThought (String s) = Some (take 50000 s) \<and> length (take 50000 s) = 50000"
    if "trim s \<noteq> [] \<and> length s > 50000"
    using that by (simp add: validateThought_def)
  have t2: "validateThought (String s) = Some s" if "trim s \<noteq> [] \<and> length s \<le> 50000"
    using that by (simp add: validateThought_def)
  show ?thesis
    using pr pv l0 l1 l2 l3 t0 t1 t2 trim_Nil_iff [of s] by blast
qed

theorem validation_normalizes_witness:
  "validatePriority (String (lit ''high'')) = P1
   \<and> validatePriority Null = P1
   \<and> validateLatency (Number NaN) = 0
   \<and> validateLatency (String (lit ''500'')) = 0
   \<and> validateLatency (Number (Finite (- 100))) = 0
   \<and> validateLatency (Number (Finite (1001 / 2))) = 501
   \<and> validateThought Null = None
   \<and> validateThought (String (lit ''   '')) = None
   \<and> validateThought (String (replicate 60000 0x61)) = Some (replicate 50000 0x61)
   \<and> validateThought (String (lit ''Hello'')) = Some (lit ''Hello'')"
proof -
  have a: "validatePriority (String (lit ''high'')) = P1"
    using validation_normalizes [of "String (lit ''high'')"] by (simp add: lit_def)
  have b: "validatePriority Null = P1"
    using validation_normalizes [of Null] by simp
  have c: "validateLatency (Number NaN) = 0"
    using validation_normalizes [of _ "Number NaN"] by simp
  have d: "validateLatency (String (lit ''500'')) = 0"
    using validation_normalizes [of _ "String (lit ''500'')"] by simp
  have e: "validateLatency (Number (Finite (- 100))) = 0"
    using validation_normalizes [of _ _ "- 100"] by simp
  have f: "validateLatency (Number (Finite (1001 / 2))) = 501"
    using validation_normalizes [of _ _ "1001 / 2"] by simp
  have g: "validateThought Null = None"
    using validation_normalizes [of _ _ _ Null] by simp
  have ws: "\<forall>c \<in> set (lit ''   ''). is_whitespace c"
    by (simp add: lit_def is_whitespace_def)
  have h: "validateThought (String (lit ''   '')) = None"
    using ws validation_normalizes [of _ _ _ "String (lit ''   '')" "lit ''   ''"] by simp
  have nw: "\<not> (\<forall>c \<in> set (replicate 60000 (0x61 :: code_unit)). is_whitespace c)"
    "\<not> (\<forall>c \<in> set (lit ''Hello''). is_whitespace c)"
    by (simp_all add: lit_def is_whitespace_def)
  have i: "validateThought (String (replicate 60000 0x61)) = Some (replicate 50000 0x61)"
    using nw validation_normalizes [of _ _ _ _ "replicate 60000 0x61"] by simp
  have j: "validateThought (String (lit ''Hello'')) = Some (lit ''Hello'')"
    using nw validation_normalizes [of _ _ _ _ "lit ''Hello''"] by (simp add: lit_def)
  show ?thesis using a b c d e f g h i j by simp
qed

section \<open>Synthesizer\<close>

lemma replace_all_concat:
  "replace_all c r (concat (map f s)) = concat (map (\<lambda>x. replace_all c r (f x)) s)"
  by (induction s) (simp_all add: replace_all_def)

lemma escapeContent_units: "escapeContent s = concat (map escape_unit_spec s)"
proof -
  have "escapeContent s = concat (map (\<lambda>x.
      replace_all newline [backslash, letter_n]
        (replace_all dquote [backslash, dquote]
           (if x = backslash then [backslash, backslash] else [x]))) s)"
    unfolding escapeContent_def
    by (simp only: replace_all_def [of backslash] replace_all_concat)
  also have "\<dots> = concat (map escape_unit_spec s)"
    by (rule arg_cong [where f = concat], rule map_cong [OF refl])
       (simp add: replace_all_def escape_unit_spec_def backslash_def dquote_def newline_def
          letter_n_def)
  finally show ?thesis .
qed

lemma unescape_escape_unit:
  "unescape_spec (escape_unit_spec c @ r) = c # unescape_spec r"
  by (cases r)
     (simp_all add: escape_unit_spec_def backslash_def dquote_def newline_def letter_n_def)

lemma unescape_escape_units: "unescape_spec (concat (map escape_unit_spec s)) = s"
  by (induction s) (simp_all add: unescape_escape_unit)

lemma join_contains:
  "y \<in> set ys \<Longrightarrow> \<exists>pre post. join sep ys = pre @ y @ post"
proof (induction sep ys rule: join.induct)
  case (1 sep)
  then show ?case by simp
next
  case (2 sep x)
  then have "join sep [x] = [] @ y @ []" by simp
  then show ?case by blast
next
  case (3 sep x z zs)
  show ?case
  proof (cases "y = x")
    case True
    then have "join sep (x # z # zs) = [] @ y @ (sep @ join sep (z # zs))" by simp
    then show ?thesis by blast
  next
    case False
    with 3 obtain pre post where "join sep (z # zs) = pre @ y @ post" by auto
    then have "join sep (x # z # zs) = (x @ sep @ pre) @ y @ post" by simp
    then show ?thesis by blast
  qed
qed

lemma mset_insert_by: "mset (insert_by cmp x ys) = add_mset x (mset ys)"
  by (induction ys) simp_all

lemma mset_Array_sort: "mset (Array_sort cmp xs) = mset xs"
  unfolding Array_sort_def by (induction xs) (simp_all add: mset_insert_by)

lemma set_Array_sort: "set (Array_sort cmp xs) = set xs"
  using mset_Array_sort [of cmp xs] by (metis set_mset_mset)

lemma length_Array_sort: "length (Array_sort cmp xs) = length xs"
  using mset_Array_sort [of cmp xs] by (metis size_mset)

lemma generateSynthesisPrompt_text:
  assumes "thoughts < length h" and "h ! thoughts \<noteq> []"
  shows "\<exists>pre post. fst (generateSynthesisPrompt getTime h thoughts) =
           pre @ join [newline] (map (\<lambda>(i, t). formatLine i t)
                   (enumerate 0 (Array_sort (compareThoughts getTime) (h ! thoughts)))) @ post"
proof -
  have "fst (generateSynthesisPrompt getTime h thoughts) =
      (lit ''**SYSTEM: NETWORK RECOVERED**'' @ [newline, newline]
         @ lit ''While congested, you drafted ''
         @ showNat (length (((h @ [h ! thoughts])
              [length h := Array_sort (compareThoughts getTime) (h ! thoughts)]
              @ [filter (\<lambda>t. priority t = P0)
                   (Array_sort (compareThoughts getTime) (h ! thoughts))]) ! thoughts))
         @ lit '' messages:'' @ [newline, newline])
      @ join [newline] (map (\<lambda>(i, t). formatLine i t)
                   (enumerate 0 (Array_sort (compareThoughts getTime) (h ! thoughts))))
      @ ([newline]
         @ (if 0 < length (filter (\<lambda>t. priority t = P0)
                   (Array_sort (compareThoughts getTime) (h ! thoughts)))
            then [newline, newline] @ lit ''**Note:** ''
                   @ showNat (length (filter (\<lambda>t. priority t = P0)
                        (Array_sort (compareThoughts getTime) (h ! thoughts))))
                   @ lit '' CRITICAL thought(s) '' @ [0x2014]
                   @ lit '' preserve unless clearly obsolete.''
            else [])
         @ [newline, newline]
         @ lit ''**TASK:** Review against current channel state.'' @ [newline]
         @ lit ''- Discard obsolete/superseded thoughts'' @ [newline]
         @ lit ''- Synthesize remaining into ONE coherent message'' @ [newline]
         @ lit ''- Do not apologize or mention delays'')"
    using assms by (simp add: generateSynthesisPrompt_def Let_def nth_append)
  then show ?thesis by blast
qed

lemma generateSynthesisPrompt_line:
  assumes "thoughts < length h" and "t \<in> set (h ! thoughts)"
  shows "\<exists>i pre post. i < length (h ! thoughts) \<and>
           fst (generateSynthesisPrompt getTime h thoughts) = pre @ formatLine i t @ post"
proof -
  let ?sorted = "Array_sort (compareThoughts getTime) (h ! thoughts)"
  from assms(2) have ne: "h ! thoughts \<noteq> []" by auto
  from assms(2) have "t \<in> set ?sorted" by (simp add: set_Array_sort)
  then obtain i where i: "i < length ?sorted" "?sorted ! i = t"
    by (auto simp: in_set_conv_nth)
  then have "(i, t) \<in> set (enumerate 0 ?sorted)"
    by (simp add: in_set_enumerate_eq)
  then have "formatLine i t \<in> set (map (\<lambda>(i, t). formatLine i t) (enumerate 0 ?sorted))"
    by force
  from join_contains [OF this, of "[newline]"]
  obtain p1 q1 where j: "join [newline] (map (\<lambda>(i, t). formatLine i t) (enumerate 0 ?sorted))
      = p1 @ formatLine i t @ q1" by blast
  from generateSynthesisPrompt_text [OF assms(1) ne, of getTime]
  obtain p2 q2 where "fst (generateSynthesisPrompt getTime h thoughts) =
      p2 @ join [newline] (map (\<lambda>(i, t). formatLine i t) (enumerate 0 ?sorted)) @ q2"
    by blast
  then have "fst (generateSynthesisPrompt getTime h thoughts) =
      (p2 @ p1) @ formatLine i t @ (q1 @ q2)" by (simp add: j)
  moreover from i(1) have "i < length (h ! thoughts)" by (simp add: length_Array_sort)
  ultimately show ?thesis by blast
qed

text \<open>
  C5. \<open>escapeContent\<close> works one code unit at a time: a backslash, a double quote and a
  newline each become a backslash followed by a backslash, a double quote and the letter
  n, once, and every other code unit (so every character outside ASCII, both halves of a
  surrogate pair included) stays as it is; a content without these three characters is
  unchanged. Unescaping the escaped content gives the content back. For every thought of
  the array it is given, the text that \<open>generateSynthesisPrompt\<close> returns holds the line
  of that thought: its number, its time, its tag and, between double quotes, its content
  escaped in this way.
\<close>

theorem escapeContent_roundtrip:
  "escapeContent [] = []
   \<and> escapeContent (a @ b) = escapeContent a @ escapeContent b
   \<and> escapeContent [c] =
       (if c = backslash then [backslash, backslash]
        else if c = dquote then [backslash, dquote]
        else if c = newline then [backslash, letter_n]
        else [c])
   \<and> ((\<forall>c \<in> set s. c \<noteq> backslash \<and> c \<noteq> dquote \<and> c \<noteq> newline) \<longrightarrow> escapeContent s = s)
   \<and> unescape_spec (escapeContent s) = s
   \<and> (thoughts < length h \<and> t \<in> set (h ! thoughts) \<longrightarrow>
        (\<exists>i pre post. i < length (h ! thoughts)
           \<and> fst (generateSynthesisPrompt getTime h thoughts) =
               pre @ showNat (i + 1) @ lit ''. ['' @ created_at t @ lit '']''
                 @ (if priority t = P0 then lit '' [CRITICAL]''
                    else if priority t = P2 then lit '' [low]'' else [])
                 @ lit '' '' @ [dquote] @ escapeContent (content t) @ [dquote] @ post))
   \<and> unescape_spec (escapeContent (content t)) = content t"
proof -
  have plain: "escapeContent s = s"
    if "\<forall>c \<in> set s. c \<noteq> backslash \<and> c \<noteq> dquote \<and> c \<noteq> newline"
    using that by (induction s) (simp_all add: escapeContent_units escape_unit_spec_def)
  have line: "\<exists>i pre post. i < length (h ! thoughts)
           \<and> fst (generateSynthesisPrompt getTime h thoughts) =
               pre @ showNat (i + 1) @ lit ''. ['' @ created_at t @ lit '']''
                 @ (if priority t = P0 then lit '' [CRITICAL]''
                    else if priority t = P2 then lit '' [low]'' else [])
                 @ lit '' '' @ [dquote] @ escapeContent (content t) @ [dquote] @ post"
    if "thoughts < length h \<and> t \<in> set (h ! thoughts)"
  proof -
    from that generateSynthesisPrompt_line [of thoughts h t getTime]
    obtain i pre post where i: "i < length (h ! thoughts)"
      and o: "fst (generateSynthesisPrompt getTime h thoughts) = pre @ formatLine i t @ post"
      by blast
    have "formatLine i t = showNat (i + 1) @ lit ''. ['' @ created_at t @ lit '']''
                 @ (if priority t = P0 then lit '' [CRITICAL]''
                    else if priority t = P2 then lit '' [low]'' else [])
                 @ lit '' '' @ [dquote] @ escapeContent (content t) @ [dquote]"
      by (simp add: formatLine_def Let_def)
    with o have "fst (generateSynthesisPrompt getTime h thoughts) =
               pre @ showNat (i + 1) @ lit ''. ['' @ created_at t @ lit '']''
                 @ (if priority t = P0 then lit '' [CRITICAL]''
                    else if priority t = P2 then lit '' [low]'' else [])
                 @ lit '' '' @ [dquote] @ escapeContent (content t) @ [dquote] @ post"
      by simp
    with i show ?thesis by blast
  qed
  have units: "escapeContent [] = []"
    "escapeContent (a @ b) = escapeContent a @ escapeContent b"
    "escapeContent [c] =
       (if c = backslash then [backslash, backslash]
        else if c = dquote then [backslash, dquote]
        else if c = newline then [backslash, letter_n]
        else [c])"
    "unescape_spec (escapeContent s) = s"
    "unescape_spec (escapeContent (content t)) = content t"
    by (simp_all add: escapeContent_units unescape_escape_units escape_unit_spec_def)
  show ?thesis
    using plain line units by blast
qed

theorem escapeContent_roundtrip_witness:
  "backslash \<notin> set [0x48, 0x69, 0x20, 0xD83E, 0xDDAB]
   \<and> dquote \<notin> set [0x48, 0x69, 0x20, 0xD83E, 0xDDAB]
   \<and> newline \<notin> set [0x48, 0x69, 0x20, 0xD83E, 0xDDAB]
   \<and> escapeContent [0x48, 0x69, 0x20, 0xD83E, 0xDDAB] = [0x48, 0x69, 0x20, 0xD83E, 0xDDAB]
   \<and> escapeContent (content example_critical) =
        [0x61, 0x5C, 0x5C, 0x5C, 0x22, 0x5C, 0x6E, 0xD83E, 0xDDAB]
   \<and> unescape_spec [0x61, 0x5C, 0x5C, 0x5C, 0x22, 0x5C, 0x6E, 0xD83E, 0xDDAB] =
        content example_critical
   \<and> (0::nat) < length [[example_low, example_critical]]
   \<and> example_critical \<in> set ([[example_low, example_critical]] ! 0)
   \<and> (\<exists>i pre post. i < length ([[example_low, example_critical]] ! 0)
         \<and> fst (generateSynthesisPrompt (\<lambda>s. 0) [[example_low, example_critical]] 0) =
             pre @ showNat (i + 1) @ lit ''. [2024-01-01 10:00:01] [CRITICAL] '' @ [dquote]
               @ [0x61, 0x5C, 0x5C, 0x5C, 0x22, 0x5C, 0x6E, 0xD83E, 0xDDAB] @ [dquote] @ post)"
proof -
  have e: "escapeContent (content example_critical) =
        [0x61, 0x5C, 0x5C, 0x5C, 0x22, 0x5C, 0x6E, 0xD83E, 0xDDAB]"
    by (simp add: example_critical_def escapeContent_def replace_all_def backslash_def
          dquote_def newline_def letter_n_def)
  have p: "\<forall>c \<in> set [0x48, 0x69, 0x20, 0xD83E, 0xDDAB :: code_unit].
       c \<noteq> backslash \<and> c \<noteq> dquote \<and> c \<noteq> newline"
    by (simp add: backslash_def dquote_def newline_def)
  have q: "backslash \<notin> set [0x48, 0x69, 0x20, 0xD83E, 0xDDAB]"
    "dquote \<notin> set [0x48, 0x69, 0x20, 0xD83E, 0xDDAB]"
    "newline \<notin> set [0x48, 0x69, 0x20, 0xD83E, 0xDDAB]"
    by (simp_all add: backslash_def dquote_def newline_def)
  have r: "escapeContent [0x48, 0x69, 0x20, 0xD83E, 0xDDAB] = [0x48, 0x69, 0x20, 0xD83E, 0xDDAB]"
    using p escapeContent_roundtrip [of "[]" "[]" 0 "[0x48, 0x69, 0x20, 0xD83E, 0xDDAB]"]
    by blast
  have u: "unescape_spec (escapeContent (content example_critical)) = content example_critical"
    using escapeContent_roundtrip [of "[]" "[]" 0 "content example_critical"] by blast
  have m: "(0::nat) < length [[example_low, example_critical]]"
    "example_critical \<in> set ([[example_low, example_critical]] ! 0)"
    by simp_all
  have f: "created_at example_critical = lit ''2024-01-01 10:00:01''"
    "priority example_critical = P0"
    by (simp_all add: example_critical_def)
  from m escapeContent_roundtrip
    [of "[]" "[]" 0 "[]" 0 "[[example_low, example_critical]]" example_critical "\<lambda>s. 0"]
  have "\<exists>i pre post. i < length ([[example_low, example_critical]] ! 0)
         \<and> fst (generateSynthesisPrompt (\<lambda>s. 0) [[example_low, example_critical]] 0) =
             pre @ showNat (i + 1) @ lit ''. ['' @ created_at example_critical @ lit '']''
                 @ (if priority example_critical = P0 then lit '' [CRITICAL]''
                    else if priority example_critical = P2 then lit '' [low]'' else [])
                 @ lit '' '' @ [dquote] @ escapeContent (content example_critical)
                 @ [dquote] @ post"
    by blast
  then have l: "\<exists>i pre post. i < length ([[example_low, example_critical]] ! 0)
         \<and> fst (generateSynthesisPrompt (\<lambda>s. 0) [[example_low, example_critical]] 0) =
             pre @ showNat (i + 1) @ lit ''. [2024-01-01 10:00:01] [CRITICAL] '' @ [dquote]
               @ [0x61, 0x5C, 0x5C, 0x5C, 0x22, 0x5C, 0x6E, 0xD83E, 0xDDAB] @ [dquote] @ post"
    unfolding f e by (simp add: lit_def)
  show ?thesis
    using q r e u m l by simp
qed

text \<open>
  C10. \<open>generateSynthesisPrompt\<close> does not write the array it is given: after the call
  the array at the reference \<open>thoughts\<close> holds the same thoughts in the same order, and
  so does every other array that existed before the call. The sort writes the copy that
  the spread made.
\<close>

theorem generateSynthesisPrompt_frame:
  "thoughts < length h \<Longrightarrow>
     snd (generateSynthesisPrompt getTime h thoughts) ! thoughts = h ! thoughts
   \<and> take (length h) (snd (generateSynthesisPrompt getTime h thoughts)) = h"
proof -
  assume a: "thoughts < length h"
  have t: "take (length h) (snd (generateSynthesisPrompt getTime h thoughts)) = h"
    by (simp add: generateSynthesisPrompt_def Let_def)
  have "snd (generateSynthesisPrompt getTime h thoughts) ! thoughts
      = take (length h) (snd (generateSynthesisPrompt getTime h thoughts)) ! thoughts"
    using a by simp
  with t show ?thesis by simp
qed

theorem generateSynthesisPrompt_frame_witness:
  "(0::nat) < length [[example_low, example_critical, example_normal]]
   \<and> snd (generateSynthesisPrompt (\<lambda>s. 0) [[example_low, example_critical, example_normal]] 0)
        ! 0 = [example_low, example_critical, example_normal]
   \<and> snd (generateSynthesisPrompt (\<lambda>s. 0) [[example_low, example_critical, example_normal]] 0)
        ! 1 = [example_critical, example_normal, example_low]"
proof -
  have s: "snd (generateSynthesisPrompt (\<lambda>s. 0)
                  [[example_low, example_critical, example_normal]] 0) ! 1 =
             [example_critical, example_normal, example_low]"
    by (simp add: generateSynthesisPrompt_def Let_def Array_sort_def compareThoughts_def
          priorityOrder_def example_low_def example_critical_def example_normal_def)
  show ?thesis
    using s generateSynthesisPrompt_frame
      [of 0 "[[example_low, example_critical, example_normal]]" "\<lambda>s. 0"]
    by simp
qed


section \<open>Thought store\<close>

lemma utf8_priority_text_less:
  "utf8 (priority_text p) < utf8 (priority_text q) \<longleftrightarrow> priorityOrder p < priorityOrder q"
  by (cases p; cases q)
     (simp_all add: priority_text_def priorityOrder_def lit_def utf8_def utf8_of_code_point_def
        is_surrogate_def)

lemma utf8_priority_text_eq: "utf8 (priority_text p) = utf8 (priority_text q) \<longleftrightarrow> p = q"
  by (cases p; cases q)
     (simp_all add: priority_text_def lit_def utf8_def utf8_of_code_point_def is_surrogate_def)

lemma key_le:
  fixes c c' :: "8 word list" and m n :: nat
  assumes "(utf8 (priority_text p), c, m) \<le> (utf8 (priority_text q), c', n)"
  shows "priorityOrder p < priorityOrder q \<or> (p = q \<and> c \<le> c')"
  using assms
  by (auto simp: less_eq_prod_def utf8_priority_text_less utf8_priority_text_eq order_le_less)

lemma set_getPendingThoughts:
  "set (getPendingThoughts tie (Some d) a) =
     {t \<in> set (buffered_thoughts d). agent_id t = a \<and> status t = lit ''pending''}"
  by (auto simp: getPendingThoughts_def)

lemma getPendingThoughts_Nil_iff:
  "getPendingThoughts tie (Some d) a = [] \<longleftrightarrow>
     (\<forall>t \<in> set (buffered_thoughts d). \<not> (agent_id t = a \<and> status t = lit ''pending''))"
proof -
  have "getPendingThoughts tie (Some d) a = [] \<longleftrightarrow> set (getPendingThoughts tie (Some d) a) = {}"
    by simp
  then show ?thesis unfolding set_getPendingThoughts by blast
qed

text \<open>
  The example database is what four calls of \<open>insertThought\<close> on an empty database
  leave; the ids are the row ids in the order of the calls.
\<close>

lemma insertThought_example:
  "insertThought (Some \<lparr>buffered_thoughts = [], synthesis_events = [], seq = 0\<rparr>)
     (lit ''2024-01-01 10:00:00'') (lit ''main'') (lit ''slack'') [] (lit ''low one'') (lit ''P2'')
     = Inr (1, Some \<lparr>buffered_thoughts = [example_low], synthesis_events = [], seq = 1\<rparr>)"
  "insertThought (Some \<lparr>buffered_thoughts = [example_low], synthesis_events = [], seq = 1\<rparr>)
     (lit ''2024-01-01 10:00:01'') (lit ''main'') (lit ''slack'') []
     [0x61, 0x5C, 0x22, 0x0A, 0xD83E, 0xDDAB] (lit ''P0'')
     = Inr (2, Some \<lparr>buffered_thoughts = [example_low, example_critical],
                      synthesis_events = [], seq = 2\<rparr>)"
  "insertThought (Some \<lparr>buffered_thoughts = [example_low, example_critical],
                        synthesis_events = [], seq = 2\<rparr>)
     (lit ''2024-01-01 10:00:02'') (lit ''main'') (lit ''slack'') [] (lit ''normal one'') []
     = Inr (3, Some \<lparr>buffered_thoughts = [example_low, example_critical, example_normal],
                      synthesis_events = [], seq = 3\<rparr>)"
  "insertThought (Some \<lparr>buffered_thoughts = [example_low, example_critical, example_normal],
                        synthesis_events = [], seq = 3\<rparr>)
     (lit ''2024-01-01 10:00:03'') (lit ''architect'') (lit ''slack'') [] (lit ''other agent'')
     (lit ''P0'')
     = Inr (4, Some example_db)"
  "insertThought (Some example_db)
     (lit ''2024-01-01 10:00:04'') (lit ''main'') (lit ''slack'') [] (lit ''bad'') (lit ''high'')
     = Inl SQLITE_CONSTRAINT"
  by (simp_all add: insertThought_def priority_of_text_def Let_def lit_def example_db_def
        example_low_def example_critical_def example_normal_def example_other_def)

text \<open>
  C4 (as amended). In the plugin, for every state of the table (so after every sequence
  of inserts), every agent and every order the engine may choose among rows that agree
  on both sort columns, \<open>getPendingThoughts\<close> returns exactly the rows of that agent
  with status \<open>pending\<close>, each as often as the table holds it; of two returned rows the
  earlier has the smaller priority in the order \<open>P0 < P1 < P2\<close>, or the same priority
  and a \<open>created_at\<close> that is not after the later one's as text. Without a database the
  result is empty. In the older thought buffer \<open>getPendingThoughts\<close> returns exactly
  the pending rows of the agent, in the order of \<open>created_at\<close> alone.
\<close>

theorem getPendingThoughts_ordered:
  "mset (getPendingThoughts tie (Some d) a) =
     mset (filter (\<lambda>t. agent_id t = a \<and> status t = lit ''pending'') (buffered_thoughts d))
   \<and> sorted_wrt (\<lambda>s t. priorityOrder (priority s) < priorityOrder (priority t)
                      \<or> (priority s = priority t
                          \<and> utf8 (created_at s) \<le> utf8 (created_at t)))
        (getPendingThoughts tie (Some d) a)
   \<and> getPendingThoughts tie None a = []
   \<and> mset (tb_getPendingThoughts tb_tie (Some rows) a) =
       mset (filter (\<lambda>t. tb_BufferedThought.agent_id t = a \<and> synthesized_at t = None
                          \<and> discarded t = 0) rows)
   \<and> sorted_wrt (\<lambda>s t. utf8 (tb_BufferedThought.created_at s)
                          \<le> utf8 (tb_BufferedThought.created_at t))
        (tb_getPendingThoughts tb_tie (Some rows) a)
   \<and> tb_getPendingThoughts tb_tie None a = []"
proof -
  let ?k = "\<lambda>t. (utf8 (priority_text (priority t)), utf8 (created_at t), tie t)"
  let ?rows = "filter (\<lambda>t. agent_id t = a \<and> status t = lit ''pending'') (buffered_thoughts d)"
  have g: "getPendingThoughts tie (Some d) a = sort_key ?k ?rows"
    by (simp add: getPendingThoughts_def)
  have m: "mset (sort_key ?k ?rows) = mset ?rows" by simp
  have "sorted (map ?k (sort_key ?k ?rows))" by (rule sorted_sort_key)
  then have s: "sorted_wrt (\<lambda>s t. priorityOrder (priority s) < priorityOrder (priority t)
                      \<or> (priority s = priority t
                          \<and> utf8 (created_at s) \<le> utf8 (created_at t)))
        (sort_key ?k ?rows)"
    unfolding sorted_map
    by (rule sorted_wrt_mono_rel [rotated]) (rule key_le)
  let ?tk = "\<lambda>t. (utf8 (tb_BufferedThought.created_at t), tb_tie t)"
  let ?trows = "filter (\<lambda>t. tb_BufferedThought.agent_id t = a \<and> synthesized_at t = None
                          \<and> discarded t = 0) rows"
  have tg: "tb_getPendingThoughts tb_tie (Some rows) a = sort_key ?tk ?trows"
    by (simp add: tb_getPendingThoughts_def)
  have tm: "mset (sort_key ?tk ?trows) = mset ?trows" by simp
  have "sorted (map ?tk (sort_key ?tk ?trows))" by (rule sorted_sort_key)
  then have ts: "sorted_wrt (\<lambda>s t. utf8 (tb_BufferedThought.created_at s)
                          \<le> utf8 (tb_BufferedThought.created_at t))
        (sort_key ?tk ?trows)"
    unfolding sorted_map
    by (rule sorted_wrt_mono_rel [rotated]) (auto simp: less_eq_prod_def)
  show ?thesis
    using m s tm ts
    by (simp add: g tg getPendingThoughts_def tb_getPendingThoughts_def)
qed

theorem getPendingThoughts_ordered_witness:
  "getPendingThoughts (\<lambda>t. 0) (Some example_db) (lit ''main'') =
     [example_critical, example_normal, example_low]
   \<and> mset [example_critical, example_normal, example_low] =
       mset (filter (\<lambda>t. agent_id t = lit ''main'' \<and> status t = lit ''pending'')
               (buffered_thoughts example_db))
   \<and> sorted_wrt (\<lambda>s t. priorityOrder (priority s) < priorityOrder (priority t)
                      \<or> (priority s = priority t
                          \<and> utf8 (created_at s) \<le> utf8 (created_at t)))
        [example_critical, example_normal, example_low]
   \<and> tb_getPendingThoughts (\<lambda>t. 0) (Some [example_tb_low, example_tb_high]) (lit ''main'') =
       [example_tb_low, example_tb_high]
   \<and> sorted_wrt (\<lambda>s t. utf8 (tb_BufferedThought.created_at s)
                          \<le> utf8 (tb_BufferedThought.created_at t))
        [example_tb_low, example_tb_high]"
proof -
  have g: "getPendingThoughts (\<lambda>t. 0) (Some example_db) (lit ''main'') =
     [example_critical, example_normal, example_low]"
    by (simp add: getPendingThoughts_def example_db_def example_low_def example_critical_def
          example_normal_def example_other_def priority_text_def lit_def less_eq_prod_def
          utf8_def utf8_of_code_point_def is_surrogate_def)
  have tg: "tb_getPendingThoughts (\<lambda>t. 0) (Some [example_tb_low, example_tb_high])
              (lit ''main'') = [example_tb_low, example_tb_high]"
    by (simp add: tb_getPendingThoughts_def example_tb_low_def example_tb_high_def lit_def
          less_eq_prod_def utf8_def utf8_of_code_point_def is_surrogate_def)
  show ?thesis
    using g tg
      getPendingThoughts_ordered
        [of "\<lambda>t. 0" example_db "lit ''main''" "\<lambda>t. 0" "[example_tb_low, example_tb_high]"]
    by simp
qed

text \<open>
  C4 as stated asks for the order of the priorities first. The older thought buffer
  returns a low thought before a high one that was buffered after it. And in the plugin
  the query leaves the order of two thoughts with the same priority and the same
  \<open>created_at\<close> to the engine: an engine that ranks the later row first returns them
  against the order of their creation.
\<close>

theorem getPendingThoughts_priority_counterexample:
  "tb_getPendingThoughts (\<lambda>t. 0) (Some [example_tb_low, example_tb_high]) (lit ''main'') =
     [example_tb_low, example_tb_high]
   \<and> \<not> tb_priorityOrder (tb_BufferedThought.priority example_tb_low)
         \<le> tb_priorityOrder (tb_BufferedThought.priority example_tb_high)
   \<and> getPendingThoughts (\<lambda>t. nat (10 - thought_id t)) (Some example_twins_db) (lit ''main'') =
       [example_second, example_first]"
  by (simp add: tb_getPendingThoughts_def example_tb_low_def example_tb_high_def lit_def
        less_eq_prod_def utf8_def utf8_of_code_point_def is_surrogate_def tb_priorityOrder_def
        getPendingThoughts_def example_twins_db_def example_first_def example_second_def
        priority_text_def)

lemma pending_ne_synth: "lit ''synthesized'' \<noteq> lit ''pending''"
  by (simp add: lit_def)

lemma marked_rows_no_pending:
  assumes "\<forall>t \<in> set rows. agent_id t = a \<and> status t = lit ''pending'' \<longrightarrow> thought_id t \<in> I"
  shows "\<forall>t \<in> set (map (\<lambda>t. if thought_id t \<in> I then t\<lparr>status := lit ''synthesized''\<rparr> else t) rows).
            \<not> (agent_id t = a \<and> status t = lit ''pending'')"
  using assms pending_ne_synth by auto

lemma marked_rows_distinct:
  assumes "distinct (map thought_id rows)"
  shows "map (\<lambda>t. if thought_id t \<in> thought_id ` {t \<in> set rows. agent_id t = a \<and> status t = lit ''pending''}
                   then t\<lparr>status := lit ''synthesized''\<rparr> else t) rows =
         map (\<lambda>t. if agent_id t = a \<and> status t = lit ''pending''
                   then t\<lparr>status := lit ''synthesized''\<rparr> else t) rows"
proof -
  from assms have inj: "inj_on thought_id (set rows)" by (simp add: distinct_map)
  show ?thesis
  proof (rule map_cong [OF refl])
    fix t assume t: "t \<in> set rows"
    have "thought_id t \<in> thought_id ` {t \<in> set rows. agent_id t = a \<and> status t = lit ''pending''}
        \<longleftrightarrow> agent_id t = a \<and> status t = lit ''pending''"
      using t inj by (auto dest: inj_onD)
    then show "(if thought_id t \<in> thought_id ` {t \<in> set rows. agent_id t = a \<and> status t = lit ''pending''}
                   then t\<lparr>status := lit ''synthesized''\<rparr> else t) =
        (if agent_id t = a \<and> status t = lit ''pending''
               then t\<lparr>status := lit ''synthesized''\<rparr> else t)" by simp
  qed
qed


lemma markSynthesized_nonempty:
  assumes "getPendingThoughts tie (Some d) a \<noteq> []"
  shows "markSynthesized tie (Some d) now a out =
     Some (d\<lparr>buffered_thoughts :=
               map (\<lambda>t. if thought_id t \<in> thought_id `
                              {t \<in> set (buffered_thoughts d).
                                 agent_id t = a \<and> status t = lit ''pending''}
                         then t\<lparr>status := lit ''synthesized''\<rparr> else t)
                   (buffered_thoughts d),
             synthesis_events := synthesis_events d @
               [\<lparr>SynthesisEvent.agent_id = a,
                 thoughts_count = int (length (getPendingThoughts tie (Some d) a)),
                 final_output = (if out = None \<or> out = Some [] then None else out),
                 triggered_at = now\<rparr>]\<rparr>)"
  using assms
  by (simp add: markSynthesized_def Let_def set_getPendingThoughts [of tie, symmetric])

lemma markSynthesized_empty:
  "getPendingThoughts tie db a = [] \<Longrightarrow> markSynthesized tie db now a out = db"
  by (cases db) (simp_all add: markSynthesized_def)

text \<open>
  \<open>markSynthesized\<close> uses only which rows are pending and how many they are, so the
  order in which the engine returns them makes no difference to it.
\<close>

lemma length_getPendingThoughts:
  "length (getPendingThoughts tie db a) = length (getPendingThoughts tie' db a)"
  by (cases db) (simp_all add: getPendingThoughts_def)

lemma markSynthesized_any_order:
  "markSynthesized tie db now a out = markSynthesized tie' db now a out"
proof (cases db)
  case None
  then show ?thesis by (simp add: markSynthesized_def)
next
  case (Some d)
  show ?thesis
  proof (cases "getPendingThoughts tie (Some d) a = []")
    case True
    then have "getPendingThoughts tie' (Some d) a = []"
      using getPendingThoughts_Nil_iff [of tie d a] getPendingThoughts_Nil_iff [of tie' d a]
      by blast
    with True show ?thesis
      unfolding Some by (simp add: markSynthesized_empty)
  next
    case False
    then have "getPendingThoughts tie' (Some d) a \<noteq> []"
      using getPendingThoughts_Nil_iff [of tie d a] getPendingThoughts_Nil_iff [of tie' d a]
      by blast
    with False show ?thesis
      unfolding Some
      by (simp add: markSynthesized_nonempty length_getPendingThoughts [of tie "Some d" a tie'])
  qed
qed

text \<open>
  C3 (as amended). Without a pending row of the agent, and without a database,
  \<open>markSynthesized\<close> changes nothing and writes no event. With at least one, it sets
  every pending row of that agent to \<open>synthesized\<close> (and, the ids being distinct as a
  primary key is, no other row and no other column), and appends exactly one event with
  the agent, the number of these rows and the output, where an output that is missing or
  the empty string is recorded as \<open>NULL\<close>. After that the agent has no pending row, so a
  second call at once changes nothing and writes no event.
\<close>

theorem markSynthesized_consumes_once:
  "(getPendingThoughts tie db a = [] \<longrightarrow> markSynthesized tie db now a out = db)
   \<and> (getPendingThoughts tie (Some d) a \<noteq> [] \<longrightarrow>
       (\<exists>d'. markSynthesized tie (Some d) now a out = Some d'
          \<and> synthesis_events d' = synthesis_events d @
               [\<lparr>SynthesisEvent.agent_id = a,
                 thoughts_count = int (length (getPendingThoughts tie (Some d) a)),
                 final_output = (if out = None \<or> out = Some [] then None else out),
                 triggered_at = now\<rparr>]
          \<and> (\<forall>t \<in> set (getPendingThoughts tie (Some d) a).
                t\<lparr>status := lit ''synthesized''\<rparr> \<in> set (buffered_thoughts d'))
          \<and> (distinct (map thought_id (buffered_thoughts d)) \<longrightarrow>
                buffered_thoughts d' =
                  map (\<lambda>t. if agent_id t = a \<and> status t = lit ''pending''
                            then t\<lparr>status := lit ''synthesized''\<rparr> else t)
                      (buffered_thoughts d))
          \<and> seq d' = seq d
          \<and> getPendingThoughts tie (Some d') a = []
          \<and> markSynthesized tie (Some d') now' a out' = Some d'))"
proof -
  have two: "\<exists>d'. markSynthesized tie (Some d) now a out = Some d'
          \<and> synthesis_events d' = synthesis_events d @
               [\<lparr>SynthesisEvent.agent_id = a,
                 thoughts_count = int (length (getPendingThoughts tie (Some d) a)),
                 final_output = (if out = None \<or> out = Some [] then None else out),
                 triggered_at = now\<rparr>]
          \<and> (\<forall>t \<in> set (getPendingThoughts tie (Some d) a).
                t\<lparr>status := lit ''synthesized''\<rparr> \<in> set (buffered_thoughts d'))
          \<and> (distinct (map thought_id (buffered_thoughts d)) \<longrightarrow>
                buffered_thoughts d' =
                  map (\<lambda>t. if agent_id t = a \<and> status t = lit ''pending''
                            then t\<lparr>status := lit ''synthesized''\<rparr> else t)
                      (buffered_thoughts d))
          \<and> seq d' = seq d
          \<and> getPendingThoughts tie (Some d') a = []
          \<and> markSynthesized tie (Some d') now' a out' = Some d'"
    if ne: "getPendingThoughts tie (Some d) a \<noteq> []"
  proof -
    define I where "I = thought_id ` {t \<in> set (buffered_thoughts d).
                                 agent_id t = a \<and> status t = lit ''pending''}"
    define rows' where "rows' = map (\<lambda>t. if thought_id t \<in> I
                         then t\<lparr>status := lit ''synthesized''\<rparr> else t) (buffered_thoughts d)"
    define ev where "ev = \<lparr>SynthesisEvent.agent_id = a,
                 thoughts_count = int (length (getPendingThoughts tie (Some d) a)),
                 final_output = (if out = None \<or> out = Some [] then None else out),
                 triggered_at = now\<rparr>"
    define d' where "d' = d\<lparr>buffered_thoughts := rows',
                            synthesis_events := synthesis_events d @ [ev]\<rparr>"
    have m: "markSynthesized tie (Some d) now a out = Some d'"
      unfolding d'_def rows'_def I_def ev_def by (rule markSynthesized_nonempty [OF ne])
    have e: "synthesis_events d' = synthesis_events d @ [ev]" by (simp add: d'_def)
    have r: "buffered_thoughts d' = rows'" by (simp add: d'_def)
    have s: "seq d' = seq d" by (simp add: d'_def)
    have moved: "\<forall>t \<in> set (getPendingThoughts tie (Some d) a).
                t\<lparr>status := lit ''synthesized''\<rparr> \<in> set (buffered_thoughts d')"
    proof
      fix t assume "t \<in> set (getPendingThoughts tie (Some d) a)"
      then have t: "t \<in> set (buffered_thoughts d)" "agent_id t = a" "status t = lit ''pending''"
        by (simp_all add: set_getPendingThoughts)
      then have "thought_id t \<in> I" by (auto simp: I_def)
      with t(1) show "t\<lparr>status := lit ''synthesized''\<rparr> \<in> set (buffered_thoughts d')"
        unfolding r rows'_def by force
    qed
    have dis: "buffered_thoughts d' =
                  map (\<lambda>t. if agent_id t = a \<and> status t = lit ''pending''
                            then t\<lparr>status := lit ''synthesized''\<rparr> else t)
                      (buffered_thoughts d)"
      if "distinct (map thought_id (buffered_thoughts d))"
      unfolding r rows'_def I_def
      using marked_rows_distinct [OF that, of a] by simp
    have "\<forall>t \<in> set (buffered_thoughts d).
            agent_id t = a \<and> status t = lit ''pending'' \<longrightarrow> thought_id t \<in> I"
      by (auto simp: I_def)
    from marked_rows_no_pending [OF this]
    have p: "getPendingThoughts tie (Some d') a = []"
      unfolding getPendingThoughts_Nil_iff r rows'_def .
    have again: "markSynthesized tie (Some d') now' a out' = Some d'"
      by (rule markSynthesized_empty [OF p])
    show ?thesis
      using m e moved dis s p again unfolding ev_def by blast
  qed
  show ?thesis
    using two markSynthesized_empty [of tie db a now out] by blast
qed


theorem markSynthesized_consumes_once_witness:
  "getPendingThoughts (\<lambda>t. 0) (Some example_db) (lit ''main'') \<noteq> []
   \<and> distinct (map thought_id (buffered_thoughts example_db))
   \<and> markSynthesized (\<lambda>t. 0) (Some example_db) (lit ''2024-01-01 10:05:00'') (lit ''main'')
        (Some (lit ''one message'')) =
      Some \<lparr>buffered_thoughts =
               [example_low\<lparr>status := lit ''synthesized''\<rparr>,
                example_critical\<lparr>status := lit ''synthesized''\<rparr>,
                example_normal\<lparr>status := lit ''synthesized''\<rparr>,
                example_other],
             synthesis_events =
               [\<lparr>SynthesisEvent.agent_id = lit ''main'', thoughts_count = 3,
                 final_output = Some (lit ''one message''),
                 triggered_at = lit ''2024-01-01 10:05:00''\<rparr>],
             seq = 4\<rparr>
   \<and> getPendingThoughts (\<lambda>t. 0)
        (markSynthesized (\<lambda>t. 0) (Some example_db) (lit ''2024-01-01 10:05:00'') (lit ''main'')
           (Some (lit ''one message''))) (lit ''main'') = []
   \<and> markSynthesized (\<lambda>t. 0)
        (markSynthesized (\<lambda>t. 0) (Some example_db) (lit ''2024-01-01 10:05:00'') (lit ''main'')
           (Some (lit ''one message'')))
        (lit ''2024-01-01 10:05:01'') (lit ''main'') (Some (lit ''again'')) =
      markSynthesized (\<lambda>t. 0) (Some example_db) (lit ''2024-01-01 10:05:00'') (lit ''main'')
        (Some (lit ''one message''))"
proof -
  have g: "getPendingThoughts (\<lambda>t. 0) (Some example_db) (lit ''main'') =
     [example_critical, example_normal, example_low]"
    by (simp add: getPendingThoughts_def example_db_def example_low_def example_critical_def
          example_normal_def example_other_def priority_text_def lit_def less_eq_prod_def utf8_def utf8_of_code_point_def
          is_surrogate_def)
  have ne: "getPendingThoughts (\<lambda>t. 0) (Some example_db) (lit ''main'') \<noteq> []"
    by (simp add: g)
  have di: "distinct (map thought_id (buffered_thoughts example_db))"
    by (simp add: example_db_def example_low_def example_critical_def
          example_normal_def example_other_def)
  from markSynthesized_consumes_once
    [of "\<lambda>t. 0" "Some example_db" "lit ''main''" "lit ''2024-01-01 10:05:00''"
        "Some (lit ''one message'')" example_db "lit ''2024-01-01 10:05:01''"
        "Some (lit ''again'')"] ne di
  obtain d' where d':
    "markSynthesized (\<lambda>t. 0) (Some example_db) (lit ''2024-01-01 10:05:00'') (lit ''main'')
        (Some (lit ''one message'')) = Some d'"
    "synthesis_events d' = synthesis_events example_db @
       [\<lparr>SynthesisEvent.agent_id = lit ''main'',
         thoughts_count = int (length (getPendingThoughts (\<lambda>t. 0) (Some example_db) (lit ''main''))),
         final_output = Some (lit ''one message''),
         triggered_at = lit ''2024-01-01 10:05:00''\<rparr>]"
    "buffered_thoughts d' =
       map (\<lambda>t. if agent_id t = lit ''main'' \<and> status t = lit ''pending''
                 then t\<lparr>status := lit ''synthesized''\<rparr> else t)
           (buffered_thoughts example_db)"
    "seq d' = seq example_db"
    "getPendingThoughts (\<lambda>t. 0) (Some d') (lit ''main'') = []"
    "markSynthesized (\<lambda>t. 0) (Some d') (lit ''2024-01-01 10:05:01'') (lit ''main'')
       (Some (lit ''again'')) = Some d'"
    by (auto simp: lit_def)
  have ev: "synthesis_events d' =
       [\<lparr>SynthesisEvent.agent_id = lit ''main'', thoughts_count = 3,
         final_output = Some (lit ''one message''),
         triggered_at = lit ''2024-01-01 10:05:00''\<rparr>]"
    unfolding d'(2) g by (simp add: example_db_def)
  have rows: "buffered_thoughts d' =
               [example_low\<lparr>status := lit ''synthesized''\<rparr>,
                example_critical\<lparr>status := lit ''synthesized''\<rparr>,
                example_normal\<lparr>status := lit ''synthesized''\<rparr>,
                example_other]"
    by (simp add: d'(3) example_db_def example_low_def example_critical_def
          example_normal_def example_other_def lit_def)
  have sq: "seq d' = 4" by (simp add: d'(4) example_db_def)
  have "d' = \<lparr>buffered_thoughts = buffered_thoughts d',
              synthesis_events = synthesis_events d', seq = seq d'\<rparr>"
    by simp
  then have eq: "d' = \<lparr>buffered_thoughts =
               [example_low\<lparr>status := lit ''synthesized''\<rparr>,
                example_critical\<lparr>status := lit ''synthesized''\<rparr>,
                example_normal\<lparr>status := lit ''synthesized''\<rparr>,
                example_other],
             synthesis_events =
               [\<lparr>SynthesisEvent.agent_id = lit ''main'', thoughts_count = 3,
                 final_output = Some (lit ''one message''),
                 triggered_at = lit ''2024-01-01 10:05:00''\<rparr>],
             seq = 4\<rparr>"
    by (simp only: ev rows sq)
  show ?thesis
    using ne di d'(1) d'(5) d'(6) eq by simp
qed

text \<open>
  C3 as stated says that the event records the output. For the empty string as output
  the event records \<open>NULL\<close>, not the empty string.
\<close>

theorem markSynthesized_empty_output_counterexample:
  "SynthesisEvent.final_output
     (last (synthesis_events (the
        (markSynthesized (\<lambda>t. 0) (Some example_db) (lit ''2024-01-01 10:05:00'') (lit ''main'')
           (Some []))))) \<noteq> Some []"
proof -
  have g: "getPendingThoughts (\<lambda>t. 0) (Some example_db) (lit ''main'') =
     [example_critical, example_normal, example_low]"
    by (simp add: getPendingThoughts_def example_db_def example_low_def example_critical_def
          example_normal_def example_other_def priority_text_def lit_def less_eq_prod_def utf8_def utf8_of_code_point_def
          is_surrogate_def)
  show ?thesis
    by (simp add: markSynthesized_def g Let_def)
qed


section \<open>Synthesizer on an empty array\<close>

text \<open>
  C9 (as amended). On an array without elements the \<open>generateSynthesisPrompt\<close> of the
  core returns the fixed text \<open>**SYSTEM: No buffered thoughts to synthesize.**\<close> and
  touches nothing: it has no error branch, and the text is not the block that starts
  with \<open>**SYSTEM: NETWORK RECOVERED**\<close> and counts the drafted messages. The copy in the
  plugin is not applied to an array without elements by its caller: for an agent
  without pending thoughts the \<^verbatim>\<open>/flush\<close> handler changes nothing and adds no entry to
  its results, and for any other agent it applies the copy to that agent's pending
  thoughts, of which there is at least one.
\<close>

theorem generateSynthesisPrompt_empty:
  "(thoughts < length h \<and> h ! thoughts = [] \<longrightarrow>
      generateSynthesisPrompt getTime h thoughts =
        (lit ''**SYSTEM: No buffered thoughts to synthesize.**'', h)
      \<and> take (length (lit ''**SYSTEM: NETWORK RECOVERED**''))
            (fst (generateSynthesisPrompt getTime h thoughts))
          \<noteq> lit ''**SYSTEM: NETWORK RECOVERED**'')
   \<and> (getPendingThoughts tie db a = [] \<longrightarrow> flush_agent tie db now a = (db, None))
   \<and> (getPendingThoughts tie db a \<noteq> [] \<longrightarrow>
        fst (flush_agent tie db now a) =
          markSynthesized tie db now a
            (Some (plugin_generateSynthesisPrompt (getPendingThoughts tie db a)))
        \<and> snd (flush_agent tie db now a) \<noteq> None)"
  by (simp add: generateSynthesisPrompt_def lit_def flush_agent_def Let_def)

theorem generateSynthesisPrompt_empty_witness:
  "(0::nat) < length [[] :: BufferedThought list]
   \<and> [[] :: BufferedThought list] ! 0 = []
   \<and> generateSynthesisPrompt (\<lambda>s. 0) [[]] 0 =
       (lit ''**SYSTEM: No buffered thoughts to synthesize.**'', [[]])
   \<and> getPendingThoughts (\<lambda>t. 0) (Some example_db) (lit ''nobody'') = []
   \<and> flush_agent (\<lambda>t. 0) (Some example_db) (lit ''2024-01-01 10:05:00'') (lit ''nobody'') =
       (Some example_db, None)
   \<and> getPendingThoughts (\<lambda>t. 0) (Some example_db) (lit ''main'') \<noteq> []
   \<and> fst (flush_agent (\<lambda>t. 0) (Some example_db) (lit ''2024-01-01 10:05:00'') (lit ''main'')) =
       markSynthesized (\<lambda>t. 0) (Some example_db) (lit ''2024-01-01 10:05:00'') (lit ''main'')
         (Some (plugin_generateSynthesisPrompt [example_critical, example_normal, example_low]))"
proof -
  have g: "getPendingThoughts (\<lambda>t. 0) (Some example_db) (lit ''main'') =
     [example_critical, example_normal, example_low]"
    by (simp add: getPendingThoughts_def example_db_def example_low_def example_critical_def
          example_normal_def example_other_def priority_text_def lit_def less_eq_prod_def
          utf8_def utf8_of_code_point_def is_surrogate_def)
  have n: "getPendingThoughts (\<lambda>t. 0) (Some example_db) (lit ''nobody'') = []"
    by (simp add: getPendingThoughts_def example_db_def example_low_def example_critical_def
          example_normal_def example_other_def lit_def)
  have c: "generateSynthesisPrompt (\<lambda>s. 0) [[]] 0 =
       (lit ''**SYSTEM: No buffered thoughts to synthesize.**'', [[]])"
    using generateSynthesisPrompt_empty [of 0 "[[]]" "\<lambda>s. 0"] by simp
  have f0: "flush_agent (\<lambda>t. 0) (Some example_db) (lit ''2024-01-01 10:05:00'') (lit ''nobody'')
      = (Some example_db, None)"
    using n generateSynthesisPrompt_empty
      [of _ _ _ "\<lambda>t. 0" "Some example_db" "lit ''nobody''" "lit ''2024-01-01 10:05:00''"]
    by blast
  have ne: "getPendingThoughts (\<lambda>t. 0) (Some example_db) (lit ''main'') \<noteq> []"
    by (simp add: g)
  have f1: "fst (flush_agent (\<lambda>t. 0) (Some example_db) (lit ''2024-01-01 10:05:00'')
                  (lit ''main'')) =
       markSynthesized (\<lambda>t. 0) (Some example_db) (lit ''2024-01-01 10:05:00'') (lit ''main'')
         (Some (plugin_generateSynthesisPrompt
                  (getPendingThoughts (\<lambda>t. 0) (Some example_db) (lit ''main''))))"
    using ne generateSynthesisPrompt_empty
      [of _ _ _ "\<lambda>t. 0" "Some example_db" "lit ''main''" "lit ''2024-01-01 10:05:00''"]
    by blast
  show ?thesis
    using c n f0 ne f1 [unfolded g] by simp
qed

text \<open>
  C9 as stated is also about the copy of \<open>generateSynthesisPrompt\<close> in the plugin. That
  copy has no case for an array without elements: on one it returns the block, with the
  count 0, and not the fixed text.
\<close>

theorem plugin_generateSynthesisPrompt_empty_counterexample:
  "plugin_generateSynthesisPrompt [] =
     lit ''**SYSTEM: NETWORK RECOVERED**'' @ [newline, newline]
       @ lit ''While congested, you drafted 0 messages:'' @ [newline, newline]
       @ [newline, newline]
       @ lit ''**TASK:** Review against current channel state.'' @ [newline]
       @ lit ''- Discard obsolete/superseded thoughts'' @ [newline]
       @ lit ''- Synthesize remaining into ONE coherent message'' @ [newline]
       @ lit ''- Do not apologize or mention delays''
   \<and> plugin_generateSynthesisPrompt [] \<noteq> lit ''**SYSTEM: No buffered thoughts to synthesize.**''"
  by (simp add: plugin_generateSynthesisPrompt_def showNat.simps lit_def)

end
